theory Spec2Isabelle
  imports Main "HOL-Library.Sublist"
begin

section \<open>The Python library functions the downloader calls\<close>

text \<open>
  The program (\<^verbatim>\<open>src/main.py\<close>) is a thin layer over the external \<^verbatim>\<open>gsutil\<close> tool:
  it spawns subprocesses, prompts on standard input, creates directories and polls the
  destination's size for a progress bar. Strings are \<^typ>\<open>string\<close>; Python integers are
  \<^typ>\<open>int\<close>. The string helpers below are the parts of \<^verbatim>\<open>str\<close> and \<^verbatim>\<open>os.path\<close>
  (POSIX flavour) that the program uses, on ASCII text.
\<close>

definition is_space :: "char \<Rightarrow> bool" where
  \<comment> \<open>\<^verbatim>\<open>str.isspace\<close> on ASCII: tab, LF, VT, FF, CR, the separators 0x1C..0x1F and space.\<close>
  "is_space c = (let k = of_char c :: nat in (9 \<le> k \<and> k \<le> 13) \<or> (28 \<le> k \<and> k \<le> 32))"

definition lstrip :: "string \<Rightarrow> string" where
  "lstrip s = dropWhile is_space s"

definition rstrip :: "string \<Rightarrow> string" where
  "rstrip s = rev (dropWhile is_space (rev s))"

definition strip :: "string \<Rightarrow> string" where
  "strip s = rstrip (lstrip s)"

definition rstrip_chars :: "char \<Rightarrow> string \<Rightarrow> string" where
  \<comment> \<open>\<^verbatim>\<open>s.rstrip('/')\<close>: every trailing occurrence of the character is removed.\<close>
  "rstrip_chars c s = rev (dropWhile (\<lambda>d. d = c) (rev s))"

definition startswith :: "string \<Rightarrow> string \<Rightarrow> bool" where
  "startswith s p = (take (length p) s = p)"

fun split_on :: "char \<Rightarrow> string \<Rightarrow> string list" where
  \<comment> \<open>\<^verbatim>\<open>s.split(sep)\<close> for a one-character separator: empty fields are kept.\<close>
  "split_on c [] = [[]]"
| "split_on c (d # s) =
     (if d = c then [] # split_on c s
      else (case split_on c s of [] \<Rightarrow> [[d]] | f # fs \<Rightarrow> (d # f) # fs))"

fun split_ws :: "string \<Rightarrow> string list" where
  \<comment> \<open>\<^verbatim>\<open>s.split()\<close>: the maximal runs of non-whitespace characters.\<close>
  "split_ws [] = []"
| "split_ws (d # s) =
     (if is_space d then split_ws s
      else (case s of
              [] \<Rightarrow> [[d]]
            | e # _ \<Rightarrow> (if is_space e then [d] # split_ws s
                        else (case split_ws s of [] \<Rightarrow> [[d]] | f # fs \<Rightarrow> (d # f) # fs))))"




definition is_digit :: "char \<Rightarrow> bool" where
  "is_digit c = (let k = of_char c :: nat in 48 \<le> k \<and> k \<le> 57)"

definition digit_val :: "char \<Rightarrow> int" where
  "digit_val c = int (of_char c) - 48"

fun digits_ok :: "string \<Rightarrow> bool" where
  \<comment> \<open>a digit first, then digits with single underscores between them\<close>
  "digits_ok [] = False"
| "digits_ok [c] = is_digit c"
| "digits_ok (c # d # s) =
     (is_digit c \<and> (if d = CHR ''_'' then digits_ok s else digits_ok (d # s)))"

definition digits_val :: "string \<Rightarrow> int" where
  "digits_val s = foldl (\<lambda>a c. 10 * a + digit_val c) 0 (filter is_digit s)"

definition py_int :: "string \<Rightarrow> int option" where
  \<comment> \<open>\<^verbatim>\<open>int(s)\<close> in base ten: surrounding whitespace, an optional sign, digits;
      \<open>None\<close> is the \<^verbatim>\<open>ValueError\<close>.\<close>
  "py_int s =
     (case strip s of
        [] \<Rightarrow> None
      | c # t \<Rightarrow>
          if c = CHR ''-'' then (if digits_ok t then Some (- digits_val t) else None)
          else if c = CHR ''+'' then (if digits_ok t then Some (digits_val t) else None)
          else if digits_ok (c # t) then Some (digits_val (c # t)) else None)"

definition digit_char :: "nat \<Rightarrow> char" where
  "digit_char k = ''0123456789'' ! k"

fun str_nat :: "nat \<Rightarrow> string" where
  "str_nat n = (if n < 10 then [digit_char n] else str_nat (n div 10) @ [digit_char (n mod 10)])"

definition str_int :: "int \<Rightarrow> string" where
  \<comment> \<open>\<^verbatim>\<open>str(k)\<close>, as an f-string renders an integer\<close>
  "str_int k = (if k < 0 then CHR ''-'' # str_nat (nat (- k)) else str_nat (nat k))"

definition basename :: "string \<Rightarrow> string" where
  \<comment> \<open>\<^verbatim>\<open>os.path.basename\<close>: what follows the last separator\<close>
  "basename p = rev (takeWhile (\<lambda>c. c \<noteq> CHR ''/'') (rev p))"

definition path_join :: "string \<Rightarrow> string \<Rightarrow> string" where
  \<comment> \<open>\<^verbatim>\<open>os.path.join(a, b)\<close>\<close>
  "path_join a b =
     (if startswith b ''/'' then b
      else if a = [] \<or> last a = CHR ''/'' then a @ b
      else a @ ''/'' @ b)"

definition expanduser :: "string \<Rightarrow> string \<Rightarrow> string" where
  \<comment> \<open>\<^verbatim>\<open>os.path.expanduser\<close> with the home directory \<open>home\<close>; a path naming another
      user (\<^verbatim>\<open>~name\<close>) is left as it is.\<close>
  "expanduser home p =
     (if p = ''~'' \<or> startswith p ''~/''
      then (let q = rstrip_chars (CHR ''/'') home @ tl p in if q = [] then ''/'' else q)
      else p)"

section \<open>The world the program runs in\<close>

text \<open>
  The local file system is a finite table from paths to nodes (the first entry for a path
  is the one that counts). The external tool is a parameter: given its command line and the
  file system it returns how the process ended and the file system it left behind. What the
  progress thread sees while a copy runs is a parameter too: for each destination, the
  snapshots of the file system at its successive polls.
\<close>

datatype node = Dir | File string

type_synonym fsys = "(string \<times> node) list"

datatype py_error =
    CalledProcessError int
  | FileNotFoundError
  | FileExistsError
  | OSError
  | IndexError
  | ValueError
  | EOFError
  | SystemExit int

record completed =
  returncode :: int
  stdout :: string

datatype run_outcome = Exited completed | NoExecutable

datatype poll = Seen fsys | StatFails

record tqdm =
  bar_desc :: string
  bar_total :: int
  bar_n :: int

datatype event =
    Print string
  | PrintExc string py_error
  | PrintHelp
  | Prompt string
  | Run "string list"
  | Makedirs string
  | TqdmOpen tqdm
  | ThreadStart
  | EventSet
  | ThreadJoin nat
  | TqdmClose tqdm

record env =
  tool :: "string list \<Rightarrow> fsys \<Rightarrow> run_outcome \<times> fsys"
  mkdir_denied :: "string \<Rightarrow> bool"
  polls :: "string \<Rightarrow> poll list"
  home :: string

record world =
  files :: fsys
  stdin :: "string list"
  trace :: "event list"
  max_parallel :: int
  max_threads :: int

type_synonym 'a py = "world \<Rightarrow> (py_error + 'a) \<times> world"

definition ret :: "'a \<Rightarrow> 'a py" where
  "ret x w = (Inr x, w)"

definition raise :: "py_error \<Rightarrow> 'a py" where
  "raise e w = (Inl e, w)"

definition bnd :: "'a py \<Rightarrow> ('a \<Rightarrow> 'b py) \<Rightarrow> 'b py" where
  \<comment> \<open>sequencing: an exception skips the rest, the state reached so far stays\<close>
  "bnd m f w = (case m w of (Inl e, w') \<Rightarrow> (Inl e, w') | (Inr x, w') \<Rightarrow> f x w')"

definition seq :: "unit py \<Rightarrow> 'b py \<Rightarrow> 'b py" where
  "seq m k = bnd m (\<lambda>_. k)"

definition try_except :: "'a py \<Rightarrow> (py_error \<Rightarrow> bool) \<Rightarrow> (py_error \<Rightarrow> 'a py) \<Rightarrow> 'a py" where
  \<comment> \<open>\<^verbatim>\<open>try: m  except <caught> as e: h e\<close>\<close>
  "try_except m caught h w =
     (case m w of
        (Inl e, w') \<Rightarrow> if caught e then h e w' else (Inl e, w')
      | (Inr x, w') \<Rightarrow> (Inr x, w'))"

definition emit :: "event \<Rightarrow> unit py" where
  "emit e w = (Inr (), w\<lparr>trace := trace w @ [e]\<rparr>)"

definition emits :: "event list \<Rightarrow> unit py" where
  "emits es w = (Inr (), w\<lparr>trace := trace w @ es\<rparr>)"

definition get_world :: "world py" where
  "get_world w = (Inr w, w)"

definition is_called_process_error :: "py_error \<Rightarrow> bool" where
  "is_called_process_error e = (case e of CalledProcessError _ \<Rightarrow> True | _ \<Rightarrow> False)"



subsection \<open>os.path and os on the file table\<close>

definition norm_path :: "string \<Rightarrow> string" where
  \<comment> \<open>the operating system resolves a path without its trailing separators\<close>
  "norm_path p = (let q = rstrip_chars (CHR ''/'') p in if q = [] then take 1 p else q)"

definition lookup :: "fsys \<Rightarrow> string \<Rightarrow> node option" where
  "lookup f p = map_of f (norm_path p)"

definition path_exists :: "fsys \<Rightarrow> string \<Rightarrow> bool" where
  "path_exists f p = (lookup f p \<noteq> None)"

definition path_isdir :: "fsys \<Rightarrow> string \<Rightarrow> bool" where
  "path_isdir f p = (lookup f p = Some Dir)"

definition getsize :: "fsys \<Rightarrow> string \<Rightarrow> int" where
  "getsize f p = (case lookup f p of Some (File c) \<Rightarrow> int (length c) | _ \<Rightarrow> 0)"

definition is_file :: "fsys \<Rightarrow> string \<Rightarrow> bool" where
  "is_file f p = (case lookup f p of Some (File _) \<Rightarrow> True | _ \<Rightarrow> False)"

definition walk_files :: "fsys \<Rightarrow> string \<Rightarrow> string list" where
  \<comment> \<open>the files \<^verbatim>\<open>os.walk\<close> reaches below a directory\<close>
  "walk_files f d =
     filter (\<lambda>p. startswith p (path_join (norm_path d) []) \<and> is_file f p)
       (remdups (map fst f))"

definition ancestors :: "string \<Rightarrow> string list" where
  "ancestors p = map (\<lambda>k. take k p) (filter (\<lambda>k. p ! k = CHR ''/'') [1..<length p])"

definition os_makedirs :: "env \<Rightarrow> string \<Rightarrow> unit py" where
  \<comment> \<open>\<^verbatim>\<open>os.makedirs(p)\<close>: the directory and its missing parents. It raises
      \<^verbatim>\<open>FileExistsError\<close> when the path exists and \<^verbatim>\<open>OSError\<close> when the system
      refuses (\<open>mkdir_denied\<close>: no permission, a parent that is a file, an empty path).\<close>
  "os_makedirs e p w =
     (let f = files w; q = norm_path p in
      if path_exists f p then (Inl FileExistsError, w)
      else if mkdir_denied e p then (Inl OSError, w)
      else (Inr (), w\<lparr>files := map (\<lambda>a. (a, Dir)) (q # filter (\<lambda>a. \<not> path_exists f a) (ancestors q)) @ f,
                       trace := trace w @ [Makedirs p]\<rparr>))"


definition py_input :: "string \<Rightarrow> string py" where
  \<comment> \<open>\<^verbatim>\<open>input(prompt)\<close>: the next line of standard input, \<^verbatim>\<open>EOFError\<close> at its end\<close>
  "py_input prompt w =
     (case stdin w of
        [] \<Rightarrow> (Inl EOFError, w\<lparr>trace := trace w @ [Prompt prompt]\<rparr>)
      | l # ls \<Rightarrow> (Inr l, w\<lparr>stdin := ls, trace := trace w @ [Prompt prompt]\<rparr>))"

definition subprocess_run :: "env \<Rightarrow> string list \<Rightarrow> completed py" where
  \<comment> \<open>\<^verbatim>\<open>subprocess.run(argv, check=True)\<close>: a missing executable and a nonzero exit
      status are exceptions\<close>
  "subprocess_run e argv w =
     (case tool e argv (files w) of
        (outcome, f') \<Rightarrow>
          (let w' = w\<lparr>files := f', trace := trace w @ [Run argv]\<rparr> in
           case outcome of
             NoExecutable \<Rightarrow> (Inl FileNotFoundError, w')
           | Exited c \<Rightarrow>
               if returncode c \<noteq> 0 then (Inl (CalledProcessError (returncode c)), w')
               else (Inr c, w')))"

section \<open>The storage client adapter\<close>

definition get_size_of_object :: "env \<Rightarrow> string \<Rightarrow> int py" where
  \<comment> \<open>\<^verbatim>\<open>get_size_of_object\<close>: only \<^verbatim>\<open>CalledProcessError\<close> is caught\<close>
  "get_size_of_object e bucket_path =
     try_except
       (bnd (subprocess_run e [''gsutil'', ''-q'', ''du'', ''-s'', bucket_path]) (\<lambda>result.
          case split_ws (strip (stdout result)) of
            [] \<Rightarrow> raise IndexError
          | size_str # _ \<Rightarrow> (case py_int size_str of None \<Rightarrow> raise ValueError | Some k \<Rightarrow> ret k)))
       is_called_process_error
       (\<lambda>_. ret 0)"


section \<open>The progress monitor\<close>

definition current_size :: "fsys \<Rightarrow> string \<Rightarrow> int" where
  \<comment> \<open>the size one poll measures: the files below a directory, or the one file, or 0\<close>
  "current_size f destination =
     (if path_isdir f destination
      then sum_list (map (getsize f) (walk_files f destination))
      else if path_exists f destination then getsize f destination else 0)"

definition tqdm_update :: "tqdm \<Rightarrow> int \<Rightarrow> tqdm" where
  \<comment> \<open>\<^verbatim>\<open>progress_bar.update(k)\<close> adds \<open>k\<close> to the bar's position\<close>
  "tqdm_update bar k = bar\<lparr>bar_n := bar_n bar + k\<rparr>"

definition poll_step :: "string \<Rightarrow> int \<times> tqdm \<Rightarrow> poll \<Rightarrow> int \<times> tqdm" where
  \<comment> \<open>one turn of the loop of \<^verbatim>\<open>update_progress\<close>, on (previous_size, progress_bar);
      an \<^verbatim>\<open>OSError\<close> while measuring leaves both as they are\<close>
  "poll_step destination st p =
     (case p of
        StatFails \<Rightarrow> st
      | Seen f \<Rightarrow>
          (let previous_size = fst st; bar = snd st; cur = current_size f destination in
           if cur > previous_size then (cur, tqdm_update bar (cur - previous_size))
           else (previous_size, bar)))"

definition update_progress :: "string \<Rightarrow> tqdm \<Rightarrow> poll list \<Rightarrow> tqdm" where
  \<comment> \<open>\<^verbatim>\<open>update_progress\<close>: \<^verbatim>\<open>previous_size = 0\<close>, then one turn per poll until the
      completion flag is seen; the list holds the polls of the run (the pause of 0.1 s
      between two polls has no counterpart here)\<close>
  "update_progress destination bar ps = snd (foldl (poll_step destination) (0, bar) ps)"

definition observed_sizes :: "string \<Rightarrow> poll list \<Rightarrow> int list" where
  \<comment> \<open>the destination sizes the polls of a run measured, in order\<close>
  "observed_sizes destination ps =
     concat (map (\<lambda>p. case p of Seen f \<Rightarrow> [current_size f destination] | StatFails \<Rightarrow> []) ps)"

section \<open>The single-item downloader\<close>

definition cp_argv :: "int \<Rightarrow> string \<Rightarrow> string \<Rightarrow> string list" where
  \<comment> \<open>the command line of the copy, with \<^verbatim>\<open>MAX_THREADS_PER_DOWNLOAD\<close> as \<open>threads\<close>\<close>
  "cp_argv threads source destination =
     [''gsutil'', ''-m'',
      ''-o'', ''GSUtil:parallel_thread_count='' @ str_int threads,
      ''-o'', ''GSUtil:parallel_process_count=1'',
      ''-o'', ''GSUtil:sliced_object_download_threshold=64M'',
      ''-o'', ''GSUtil:sliced_object_download_max_components=8'',
      ''cp'', ''-r'', ''-n'', source, destination]"

definition download_with_progress :: "env \<Rightarrow> string \<Rightarrow> string \<Rightarrow> int option \<Rightarrow> bool py" where
  \<comment> \<open>\<^verbatim>\<open>download_with_progress\<close>: the calling thread's steps in program order. The
      monitor thread runs between \<open>ThreadStart\<close> and the end of the join; the bar it
      leaves is the one closed. \<open>ThreadJoin 1000\<close> is \<^verbatim>\<open>join(timeout=1.0)\<close> in
      milliseconds: it returns nothing, whether or not the thread has ended.\<close>
  "download_with_progress e source destination total_size =
     bnd (case total_size of None \<Rightarrow> get_size_of_object e source | Some t \<Rightarrow> ret t) (\<lambda>total.
     let progress_bar = \<lparr>bar_desc = ''Downloading '' @ basename source, bar_total = total, bar_n = 0\<rparr> in
     seq (emit (TqdmOpen progress_bar)) (
     seq (emit ThreadStart) (
     bnd get_world (\<lambda>w.
     bnd (try_except
            (bnd (subprocess_run e (cp_argv (max_threads w) source destination)) (\<lambda>_. ret True))
            is_called_process_error
            (\<lambda>_. ret False)) (\<lambda>success.
     seq (emit EventSet) (
     seq (emit (ThreadJoin 1000)) (
     seq (emit (TqdmClose (update_progress destination progress_bar (polls e destination)))) (
     ret success))))))))"

section \<open>The batch orchestrator\<close>

definition download_item :: "env \<Rightarrow> string \<Rightarrow> bool \<Rightarrow> string \<Rightarrow> (string \<times> bool) py" where
  "download_item e destination is_folders item =
     (if is_folders then
        (let folder_name = basename (rstrip_chars (CHR ''/'') item);
             folder_dest = path_join destination folder_name in
         bnd get_world (\<lambda>w.
         seq (if \<not> path_exists (files w) folder_dest then os_makedirs e folder_dest else ret ()) (
         bnd (download_with_progress e item folder_dest None) (\<lambda>success.
         ret (item, success)))))
      else
        (let file_name = basename item;
             file_dest = path_join destination file_name in
         bnd (download_with_progress e item file_dest None) (\<lambda>success.
         ret (item, success))))"

primrec executor_map :: "('a \<Rightarrow> 'b py) \<Rightarrow> 'a list \<Rightarrow> 'b list py" where
  \<comment> \<open>\<^verbatim>\<open>list(executor.map(f, items))\<close>: the results in the order of the items. The calls
      are run here one after the other, in that order, whatever the width of the pool;
      the first exception ends the collection.\<close>
  "executor_map f [] = ret []"
| "executor_map f (x # xs) = bnd (f x) (\<lambda>r. bnd (executor_map f xs) (\<lambda>rs. ret (r # rs)))"

definition successful_of :: "(string \<times> bool) list \<Rightarrow> string list" where
  "successful_of results = map fst (filter (\<lambda>r. snd r) results)"

definition failed_of :: "(string \<times> bool) list \<Rightarrow> string list" where
  "failed_of results = map fst (filter (\<lambda>r. \<not> snd r) results)"

definition batch_results :: "env \<Rightarrow> string list \<Rightarrow> string \<Rightarrow> bool \<Rightarrow> int option \<Rightarrow> (string \<times> bool) list py" where
  \<comment> \<open>\<^verbatim>\<open>batch_download\<close> up to its list of results; a pool of width 0 or less is a
      \<^verbatim>\<open>ValueError\<close> of \<^verbatim>\<open>ThreadPoolExecutor\<close>\<close>
  "batch_results e items destination is_folders max_workers =
     bnd get_world (\<lambda>w.
     let workers = (case max_workers of None \<Rightarrow> max_parallel w | Some k \<Rightarrow> k);
         total_items = int (length items) in
     seq (emit (Print (''Starting download of '' @ str_int total_items @ '' ''
                        @ (if is_folders then ''folders'' else ''files'') @ '' in parallel''))) (
     if workers \<le> 0 then raise ValueError
     else executor_map (download_item e destination is_folders) items))"

definition batch_download :: "env \<Rightarrow> string list \<Rightarrow> string \<Rightarrow> bool \<Rightarrow> int option \<Rightarrow> unit py" where
  "batch_download e items destination is_folders max_workers =
     bnd (batch_results e items destination is_folders max_workers) (\<lambda>results.
     let successful = successful_of results; failed = failed_of results in
     seq (if successful \<noteq> []
          then emit (Print (''Successfully downloaded '' @ str_int (int (length successful)) @ '' items''))
          else ret ()) (
     if failed \<noteq> []
     then seq (emit (Print (''Failed to download '' @ str_int (int (length failed)) @ '' items:'')))
              (emits (map (\<lambda>item. Print (''  - '' @ item)) failed))
     else ret ()))"

section \<open>The interactive and command-line frontend\<close>





definition parse_indices :: "string \<Rightarrow> int list option" where
  \<comment> \<open>\<^verbatim>\<open>[int(idx.strip()) - 1 for idx in indices.split(",")]\<close>; \<open>None\<close> is the
      \<^verbatim>\<open>ValueError\<close> of the first entry that is not a number\<close>
  "parse_indices s =
     map_option (map (\<lambda>k. k - 1)) (those (map (\<lambda>idx. py_int (strip idx)) (split_on (CHR '','') s)))"

definition select_items :: "string list \<Rightarrow> int list \<Rightarrow> string list" where
  \<comment> \<open>\<^verbatim>\<open>[items[idx] for idx in indices if 0 <= idx < len(items)]\<close>\<close>
  "select_items items indices =
     map (\<lambda>idx. items ! nat idx) (filter (\<lambda>idx. 0 \<le> idx \<and> idx < int (length items)) indices)"

definition interactive_choice :: "env \<Rightarrow> string \<Rightarrow> string list \<Rightarrow> string \<Rightarrow> string \<Rightarrow> unit py" where
  \<comment> \<open>the last part of \<^verbatim>\<open>interactive_download\<close>: the branch on the user's choice\<close>
  "interactive_choice e bucket items destination choice =
     (if choice = ''1'' then
        bnd (py_input ''Enter the number of the file to download: '') (\<lambda>typed.
        case py_int typed of
          None \<Rightarrow> raise ValueError
        | Some k \<Rightarrow>
            (let file_index = k - 1 in
             if 0 \<le> file_index \<and> file_index < int (length items) then
               (let file_path = items ! nat file_index;
                    file_name = basename file_path;
                    file_dest = path_join destination file_name in
                bnd (download_with_progress e file_path file_dest None) (\<lambda>_. ret ()))
             else emit (Print ''Invalid file selection.'')))
      else if choice = ''2'' then
        bnd (py_input ''Enter the numbers of files to download (comma-separated): '') (\<lambda>typed.
        try_except
          (case parse_indices typed of
             None \<Rightarrow> raise ValueError
           | Some indices \<Rightarrow>
               (let files_to_download = select_items items indices in
                if files_to_download \<noteq> []
                then batch_download e files_to_download destination False None
                else emit (Print ''No valid files selected.'')))
          (\<lambda>err. err = ValueError)
          (\<lambda>_. emit (Print ''Invalid input. Please enter comma-separated numbers.'')))
      else if choice = ''3'' then
        bnd (py_input ''Enter the number of the folder to download: '') (\<lambda>typed.
        case py_int typed of
          None \<Rightarrow> raise ValueError
        | Some k \<Rightarrow>
            (let folder_index = k - 1 in
             if 0 \<le> folder_index \<and> folder_index < int (length items) then
               (let folder_path = items ! nat folder_index;
                    folder_name = basename (rstrip_chars (CHR ''/'') folder_path);
                    folder_dest = path_join destination folder_name in
                bnd get_world (\<lambda>w.
                seq (if \<not> path_exists (files w) folder_dest then os_makedirs e folder_dest else ret ()) (
                bnd (download_with_progress e folder_path folder_dest None) (\<lambda>_. ret ()))))
             else emit (Print ''Invalid folder selection.'')))
      else if choice = ''4'' then
        bnd (py_input ''Enter the numbers of folders to download (comma-separated): '') (\<lambda>typed.
        try_except
          (case parse_indices typed of
             None \<Rightarrow> raise ValueError
           | Some indices \<Rightarrow>
               (let folders_to_download = select_items items indices in
                if folders_to_download \<noteq> []
                then batch_download e folders_to_download destination True None
                else emit (Print ''No valid folders selected.'')))
          (\<lambda>err. err = ValueError)
          (\<lambda>_. emit (Print ''Invalid input. Please enter comma-separated numbers.'')))
      else if choice = ''5'' then
        seq (emit (Print (''Downloading everything from '' @ bucket @ '' to '' @ destination))) (
        bnd (download_with_progress e bucket destination None) (\<lambda>_. ret ()))
      else emit (Print ''Invalid choice. Please run the program again and select a valid option.''))"










section \<open>Reading a run\<close>

definition new_events :: "world \<Rightarrow> world \<Rightarrow> event list" where
  \<comment> \<open>what a call added to the trace: the events of \<open>w'\<close> after those of \<open>w\<close>\<close>
  "new_events w w' = drop (length (trace w)) (trace w')"

fun gsutil_command :: "string list \<Rightarrow> string option" where
  \<comment> \<open>how gsutil reads the words after its name: the first one that is not a global
      option (\<^verbatim>\<open>-m\<close>, \<^verbatim>\<open>-q\<close>, \<^verbatim>\<open>-o\<close> with its value) is the command\<close>
  "gsutil_command [] = None"
| "gsutil_command [a] = (if a = ''-o'' \<or> a = ''-m'' \<or> a = ''-q'' then None else Some a)"
| "gsutil_command (a # b # rest) =
     (if a = ''-o'' then gsutil_command rest
      else if a = ''-m'' \<or> a = ''-q'' then gsutil_command (b # rest)
      else Some a)"


definition item_dest :: "string \<Rightarrow> bool \<Rightarrow> string \<Rightarrow> string" where
  \<comment> \<open>where \<^verbatim>\<open>download_item\<close> sends an item: \<open>folder_dest\<close> or \<open>file_dest\<close>\<close>
  "item_dest destination is_folders item =
     path_join destination (basename (if is_folders then rstrip_chars (CHR ''/'') item else item))"

definition makedirs_if_absent :: "env \<Rightarrow> string \<Rightarrow> unit py" where
  \<comment> \<open>the two lines \<^verbatim>\<open>if not os.path.exists(folder_dest): os.makedirs(folder_dest)\<close> that
      \<^verbatim>\<open>download_item\<close>, \<^verbatim>\<open>interactive_download\<close> and \<^verbatim>\<open>main\<close> each have before a folder
      download, on their own\<close>
  "makedirs_if_absent e p w = (if \<not> path_exists (files w) p then os_makedirs e p w else (Inr (), w))"





section \<open>Example runs\<close>

definition bar0 :: tqdm where
  "bar0 = \<lparr>bar_desc = ''Downloading dir'', bar_total = 10, bar_n = 0\<rparr>"

definition growing_polls :: "poll list" where
  \<comment> \<open>a destination directory that already holds 5 bytes at the first poll and 10 at the second\<close>
  "growing_polls =
     [Seen [(''/out'', Dir), (''/out/a'', File ''aaaaa'')],
      Seen [(''/out'', Dir), (''/out/a'', File ''aaaaa''), (''/out/b'', File ''bbbbb'')]]"

definition demo_tool :: "bool \<Rightarrow> string list \<Rightarrow> string list \<Rightarrow> fsys \<Rightarrow> run_outcome \<times> fsys" where
  \<comment> \<open>a stand-in for gsutil in the examples. \<open>installed\<close>: whether there is an executable;
      \<open>failing\<close>: the sources for which size probe and copy exit with status 1. A copy that
      succeeds adds one file and touches nothing else.\<close>
  "demo_tool installed failing argv f =
     (let source = last (butlast argv); dest = last argv in
      if \<not> installed then (NoExecutable, f)
      else
        case gsutil_command (tl argv) of
          None \<Rightarrow> (Exited \<lparr>returncode = 1, stdout = []\<rparr>, f)
        | Some cmd \<Rightarrow>
            if cmd = ''cp'' then
              (if source \<in> set failing then (Exited \<lparr>returncode = 1, stdout = []\<rparr>, f)
               else (Exited \<lparr>returncode = 0, stdout = []\<rparr>,
                     f @ [(if path_isdir f dest
                           then path_join (norm_path dest) (basename (rstrip_chars (CHR ''/'') source))
                           else norm_path dest, File ''data'')]))
            else if cmd = ''du'' then
              (if dest \<in> set failing then (Exited \<lparr>returncode = 1, stdout = []\<rparr>, f)
               else (Exited \<lparr>returncode = 0, stdout = ''4  gs://b/x'' @ [CHR 0x0A]\<rparr>, f))
            else if cmd = ''ls'' then
              (Exited \<lparr>returncode = 0,
                       stdout = ''gs://b/a.txt'' @ [CHR 0x0A] @ ''gs://b/dir/'' @ [CHR 0x0A]\<rparr>, f)
            else (Exited \<lparr>returncode = 0, stdout = ''gsutil version: 5.27'' @ [CHR 0x0A]\<rparr>, f))"

definition demo_env :: "string list \<Rightarrow> string list \<Rightarrow> env" where
  \<comment> \<open>\<open>failing\<close>: the sources gsutil fails on; \<open>denied\<close>: the directories that cannot be made\<close>
  "demo_env failing denied =
     \<lparr>tool = demo_tool True failing,
      mkdir_denied = (\<lambda>p. p \<in> set denied),
      polls = (\<lambda>d. growing_polls),
      home = ''/home/u''\<rparr>"


definition world0 :: "string list \<Rightarrow> world" where
  \<comment> \<open>a home directory and a directory \<^verbatim>\<open>/out\<close> that holds one file; \<open>typed\<close> is what the
      user will type\<close>
  "world0 typed =
     \<lparr>files = [(''/home/u'', Dir), (''/out'', Dir), (''/out/old.txt'', File ''old'')],
      stdin = typed, trace = [], max_parallel = 16, max_threads = 8\<rparr>"


definition dropping_polls :: "poll list" where
  \<comment> \<open>a file of 5 bytes that is removed, fails to be measured, and comes back with 3 and then 7 bytes\<close>
  "dropping_polls =
     [Seen [(''/out/a'', File ''aaaaa'')],
      Seen [],
      StatFails,
      Seen [(''/out/a'', File ''aaa'')],
      Seen [(''/out/a'', File ''aaaaaaa'')]]"

section \<open>Properties\<close>

subsection \<open>The library functions on examples\<close>

lemma py_int_examples:
  "py_int ''12'' = Some 12" "py_int '' 7 '' = Some 7" "py_int ''abc'' = None"
  "py_int ''-3'' = Some (-3)" "py_int '''' = None" "py_int ''1_0'' = Some 10"
  by (simp_all add: py_int_def strip_def lstrip_def rstrip_def is_space_def
      is_digit_def digits_val_def digit_val_def)

lemma str_int_examples: "str_int 0 = ''0''" "str_int 16 = ''16''" "str_int (-8) = ''-8''"
  by (simp_all add: str_int_def digit_char_def)

lemma path_examples:
  "basename (rstrip_chars (CHR ''/'') ''gs://b/dir/'') = ''dir''"
  "basename ''gs://b/a.txt'' = ''a.txt''"
  "path_join ''/out'' ''dir'' = ''/out/dir''"
  "path_join ''/out/'' ''dir'' = ''/out/dir''"
  "split_on (CHR '','') ''1, 2,,x'' = [''1'', '' 2'', '''', ''x'']"
  "split_ws ''  42   gs://b/x '' = [''42'', ''gs://b/x'']"
  "expanduser ''/home/u'' ''~/out'' = ''/home/u/out''"
  by (simp_all add: basename_def rstrip_chars_def path_join_def startswith_def
      is_space_def expanduser_def)

subsection \<open>The progress monitor\<close>

lemma getsize_nonneg: "0 \<le> getsize f p"
  by (simp add: getsize_def split: option.splits node.splits)

lemma current_size_nonneg: "0 \<le> current_size f d"
  by (auto simp add: current_size_def getsize_nonneg intro!: sum_list_nonneg)

lemma observed_nonneg: "x \<in> set (observed_sizes d ps) \<Longrightarrow> 0 \<le> x"
  by (auto simp add: observed_sizes_def current_size_nonneg split: poll.splits)

lemma poll_step_Seen:
  "poll_step d (prev, bar) (Seen f) =
     (max prev (current_size f d), tqdm_update bar (max 0 (current_size f d - prev)))"
  by (simp add: poll_step_def tqdm_update_def Let_def max_def)

lemma poll_step_mono: "bar_n (snd st) \<le> bar_n (snd (poll_step d st p))"
  by (cases st; cases p) (simp_all add: poll_step_def tqdm_update_def Let_def)

lemma foldl_poll_step_mono:
  "bar_n (snd st) \<le> bar_n (snd (foldl (poll_step d) st ps))"
proof (induction ps arbitrary: st)
  case Nil
  show ?case by simp
next
  case (Cons p ps)
  have "bar_n (snd st) \<le> bar_n (snd (poll_step d st p))"
    by (rule poll_step_mono)
  also have "\<dots> \<le> bar_n (snd (foldl (poll_step d) (poll_step d st p) ps))"
    by (rule Cons.IH)
  finally show ?case by simp
qed

lemma foldl_poll_step_sorted:
  "sorted (prev # observed_sizes d ps) \<Longrightarrow>
   foldl (poll_step d) (prev, bar) ps =
     (last (prev # observed_sizes d ps),
      tqdm_update bar (last (prev # observed_sizes d ps) - prev))"
proof (induction ps arbitrary: prev bar)
  case Nil
  show ?case by (simp add: observed_sizes_def tqdm_update_def)
next
  case (Cons p ps)
  show ?case
  proof (cases p)
    case StatFails
    with Cons show ?thesis by (simp add: observed_sizes_def poll_step_def)
  next
    case (Seen f)
    let ?c = "current_size f d"
    from Cons.prems Seen have le: "prev \<le> ?c" and srt: "sorted (?c # observed_sizes d ps)"
      by (simp_all add: observed_sizes_def)
    have step: "poll_step d (prev, bar) p = (?c, tqdm_update bar (?c - prev))"
      using le Seen by (auto simp add: poll_step_def Let_def tqdm_update_def)
    show ?thesis
      using Cons.IH [OF srt, of "tqdm_update bar (?c - prev)"] Seen step
      by (simp add: observed_sizes_def tqdm_update_def)
  qed
qed

lemmas eval_size =
  current_size_def path_isdir_def path_exists_def lookup_def norm_path_def rstrip_chars_def
  walk_files_def startswith_def path_join_def is_file_def getsize_def

lemmas eval_monitor =
  observed_sizes_def update_progress_def poll_step_def tqdm_update_def eval_size

text \<open>
  C1, as the specification states it, fails: the monitor's baseline is
  \<^verbatim>\<open>previous_size = 0\<close>, not the first size it measures. A destination directory that
  holds 5 bytes at the first poll and 10 at the second is a non-decreasing run; the bar
  advances by 10, and final size minus initial size is 5.
\<close>

theorem advance_is_not_final_minus_initial:
  "sorted (observed_sizes ''/out'' growing_polls) \<and>
   bar_n (update_progress ''/out'' bar0 growing_polls) - bar_n bar0
     \<noteq> last (observed_sizes ''/out'' growing_polls) - hd (observed_sizes ''/out'' growing_polls)"
  by (simp add: growing_polls_def bar0_def eval_monitor)

text \<open>
  C1 (amended): for every run of the progress monitor whose measured destination sizes
  are non-decreasing, the bar's cumulative advancement equals the last measured size
  (final size minus the monitor's baseline of zero; nothing when no poll measured a
  size), and each poll advances the bar by exactly the positive part of the difference
  between the size it measures and \<^verbatim>\<open>previous_size\<close>, which on such a run is the
  previous sample (zero before the first poll), so no byte is counted twice.
\<close>

theorem advance_equals_final_size:
  assumes "sorted (observed_sizes destination ps)"
  shows "bar_n (update_progress destination bar ps) - bar_n bar =
           (if observed_sizes destination ps = [] then 0
            else last (observed_sizes destination ps)) \<and>
         poll_step destination (prev, bar') (Seen f) =
           (max prev (current_size f destination),
            tqdm_update bar' (max 0 (current_size f destination - prev)))"
proof -
  have "sorted (0 # observed_sizes destination ps)"
    using assms observed_nonneg [of _ destination ps] by simp
  then have "foldl (poll_step destination) (0, bar) ps =
      (last (0 # observed_sizes destination ps),
       tqdm_update bar (last (0 # observed_sizes destination ps) - 0))"
    by (rule foldl_poll_step_sorted)
  then have "bar_n (update_progress destination bar ps) - bar_n bar =
      (if observed_sizes destination ps = [] then 0 else last (observed_sizes destination ps))"
    by (simp add: update_progress_def tqdm_update_def)
  then show ?thesis
    by (simp add: poll_step_Seen)
qed

theorem advance_equals_final_size_witness:
  "sorted (observed_sizes ''/out'' growing_polls) \<and>
   observed_sizes ''/out'' growing_polls = [5, 10] \<and>
   bar_n (update_progress ''/out'' bar0 growing_polls) - bar_n bar0 = 10"
proof -
  have s: "sorted (observed_sizes ''/out'' growing_polls)"
    by (simp add: growing_polls_def eval_monitor)
  have o: "observed_sizes ''/out'' growing_polls = [5, 10]"
    by (simp add: growing_polls_def eval_monitor)
  show ?thesis
    using s o advance_equals_final_size [OF s, of bar0] by simp
qed

text \<open>
  C3: for every sequence of polls, also one in which the measured size drops or a
  measurement fails, the bar never decrements: its position after any further polls is at
  least its position before them, it never falls below its starting position, and a poll
  that measures no more than \<^verbatim>\<open>previous_size\<close> (the largest size measured so far), or that
  fails, changes nothing.
\<close>

theorem progress_bar_never_decrements:
  "bar_n (update_progress destination bar ps) \<le> bar_n (update_progress destination bar (ps @ qs)) \<and>
   bar_n bar \<le> bar_n (update_progress destination bar ps) \<and>
   (current_size f destination \<le> prev \<longrightarrow>
      poll_step destination (prev, bar') (Seen f) = (prev, bar')) \<and>
   poll_step destination (prev, bar') StatFails = (prev, bar')"
proof -
  have "bar_n (snd (foldl (poll_step destination) (0, bar) ps))
      \<le> bar_n (snd (foldl (poll_step destination) (foldl (poll_step destination) (0, bar) ps) qs))"
    by (rule foldl_poll_step_mono)
  then have a: "bar_n (update_progress destination bar ps)
      \<le> bar_n (update_progress destination bar (ps @ qs))"
    by (simp add: update_progress_def)
  have b: "bar_n bar \<le> bar_n (update_progress destination bar ps)"
    using foldl_poll_step_mono [of "(0, bar)" destination ps] by (simp add: update_progress_def)
  show ?thesis
    using a b by (simp add: poll_step_def Let_def)
qed

theorem progress_bar_never_decrements_witness:
  "observed_sizes ''/out/a'' dropping_polls = [5, 0, 3, 7] \<and>
   bar_n (update_progress ''/out/a'' bar0 (take 1 dropping_polls)) = 5 \<and>
   bar_n (update_progress ''/out/a'' bar0 (take 1 dropping_polls))
     \<le> bar_n (update_progress ''/out/a'' bar0 (take 1 dropping_polls @ drop 1 dropping_polls)) \<and>
   bar_n (update_progress ''/out/a'' bar0 dropping_polls) = 7 \<and>
   current_size [] ''/out/a'' \<le> 5 \<and>
   poll_step ''/out/a'' (5, bar0) (Seen []) = (5, bar0)"
proof -
  have h: "current_size [] ''/out/a'' \<le> 5"
    by (simp add: eval_size)
  show ?thesis
    using h progress_bar_never_decrements
      [of "''/out/a''" bar0 "take 1 dropping_polls" "drop 1 dropping_polls" "[]" 5 bar0]
    by (simp add: dropping_polls_def bar0_def eval_monitor)
qed

subsection \<open>The size probe and the single-item downloader\<close>

lemmas monad_defs =
  bnd_def seq_def ret_def raise_def try_except_def emit_def emits_def get_world_def

lemma get_size_of_object_explicit:
  "get_size_of_object e path w =
     (case tool e [''gsutil'', ''-q'', ''du'', ''-s'', path] (files w) of
        (outcome, f1) \<Rightarrow>
          (let w1 = w\<lparr>files := f1, trace := trace w @ [Run [''gsutil'', ''-q'', ''du'', ''-s'', path]]\<rparr> in
           case outcome of
             NoExecutable \<Rightarrow> (Inl FileNotFoundError, w1)
           | Exited c \<Rightarrow>
               if returncode c \<noteq> 0 then (Inr 0, w1)
               else (case split_ws (strip (stdout c)) of
                       [] \<Rightarrow> (Inl IndexError, w1)
                     | s # _ \<Rightarrow> (case py_int s of None \<Rightarrow> (Inl ValueError, w1) | Some k \<Rightarrow> (Inr k, w1)))))"
  by (simp add: get_size_of_object_def subprocess_run_def monad_defs is_called_process_error_def Let_def
      split: prod.splits run_outcome.splits list.splits option.splits)

lemma get_size_of_object_world:
  "snd (get_size_of_object e path w) =
     w\<lparr>files := snd (tool e [''gsutil'', ''-q'', ''du'', ''-s'', path] (files w)),
       trace := trace w @ [Run [''gsutil'', ''-q'', ''du'', ''-s'', path]]\<rparr>"
  by (simp add: get_size_of_object_explicit Let_def
      split: prod.splits run_outcome.splits list.splits option.splits)

lemma dwp_after_probe:
  assumes "(case total_size of None \<Rightarrow> get_size_of_object e source | Some t \<Rightarrow> ret t) w = (Inr sz, w1)"
  shows "download_with_progress e source destination total_size w =
     (let bar = \<lparr>bar_desc = ''Downloading '' @ basename source, bar_total = sz, bar_n = 0\<rparr>;
          argv = cp_argv (max_threads w1) source destination in
      case tool e argv (files w1) of
        (NoExecutable, f2) \<Rightarrow>
          (Inl FileNotFoundError,
           w1\<lparr>files := f2, trace := trace w1 @ [TqdmOpen bar, ThreadStart, Run argv]\<rparr>)
      | (Exited c, f2) \<Rightarrow>
          (Inr (returncode c = 0),
           w1\<lparr>files := f2,
              trace := trace w1 @ [TqdmOpen bar, ThreadStart, Run argv, EventSet, ThreadJoin 1000,
                 TqdmClose (update_progress destination bar (polls e destination))]\<rparr>))"
  using assms
  by (simp add: download_with_progress_def subprocess_run_def monad_defs is_called_process_error_def Let_def
      split: prod.splits run_outcome.splits)

lemma dwp_probe_raises:
  assumes "(case total_size of None \<Rightarrow> get_size_of_object e source | Some t \<Rightarrow> ret t) w = (Inl err, w1)"
  shows "download_with_progress e source destination total_size w = (Inl err, w1)"
  using assms
  by (simp add: download_with_progress_def monad_defs)

text \<open>
  C6: whenever the size subprocess exits with a nonzero status, \<^verbatim>\<open>get_size_of_object\<close>
  returns 0 and raises nothing, and the caller goes on: \<^verbatim>\<open>download_with_progress\<close> opens
  its progress bar with total 0 (which tqdm shows as a bar without a known total), starts
  the monitor and runs the copy, and its result is that of the copy.
\<close>

theorem size_probe_failure_returns_zero:
  assumes "fst (tool e [''gsutil'', ''-q'', ''du'', ''-s'', path] (files w)) = Exited c"
      and "returncode c \<noteq> 0"
  shows "fst (get_size_of_object e path w) = Inr 0 \<and>
         take 4 (drop (length (trace w))
                   (trace (snd (download_with_progress e path destination None w)))) =
           [Run [''gsutil'', ''-q'', ''du'', ''-s'', path],
            TqdmOpen \<lparr>bar_desc = ''Downloading '' @ basename path, bar_total = 0, bar_n = 0\<rparr>,
            ThreadStart,
            Run (cp_argv (max_threads w) path destination)] \<and>
         fst (download_with_progress e path destination None w) =
           (case fst (tool e (cp_argv (max_threads w) path destination)
                        (snd (tool e [''gsutil'', ''-q'', ''du'', ''-s'', path] (files w)))) of
              Exited c' \<Rightarrow> Inr (returncode c' = 0)
            | NoExecutable \<Rightarrow> Inl FileNotFoundError)"
proof -
  obtain f1 where t: "tool e [''gsutil'', ''-q'', ''du'', ''-s'', path] (files w) = (Exited c, f1)"
    using assms(1) by (cases "tool e [''gsutil'', ''-q'', ''du'', ''-s'', path] (files w)") simp
  let ?w1 = "w\<lparr>files := f1, trace := trace w @ [Run [''gsutil'', ''-q'', ''du'', ''-s'', path]]\<rparr>"
  have g: "get_size_of_object e path w = (Inr 0, ?w1)"
    using t assms(2) by (simp add: get_size_of_object_explicit)
  have p: "(case None of None \<Rightarrow> get_size_of_object e path | Some t \<Rightarrow> ret t) w = (Inr 0, ?w1)"
    using g by simp
  show ?thesis
    using g t dwp_after_probe [OF p, of destination]
    by (simp add: Let_def split: prod.splits run_outcome.splits)
qed

theorem size_probe_failure_returns_zero_witness:
  "fst (tool (demo_env [''gs://b/a.txt''] []) [''gsutil'', ''-q'', ''du'', ''-s'', ''gs://b/a.txt'']
         (files (world0 []))) = Exited \<lparr>returncode = 1, stdout = []\<rparr> \<and>
   returncode \<lparr>returncode = 1, stdout = []\<rparr> \<noteq> 0 \<and>
   fst (get_size_of_object (demo_env [''gs://b/a.txt''] []) ''gs://b/a.txt'' (world0 [])) = Inr 0 \<and>
   fst (download_with_progress (demo_env [''gs://b/a.txt''] []) ''gs://b/a.txt'' ''/out/a.txt'' None (world0 []))
     = Inr False"
proof -
  have a: "fst (tool (demo_env [''gs://b/a.txt''] []) [''gsutil'', ''-q'', ''du'', ''-s'', ''gs://b/a.txt'']
         (files (world0 []))) = Exited \<lparr>returncode = 1, stdout = []\<rparr>"
    by (simp add: demo_env_def demo_tool_def world0_def)
  have b: "returncode \<lparr>returncode = 1, stdout = []\<rparr> \<noteq> 0"
    by simp
  show ?thesis
    using a b size_probe_failure_returns_zero [OF a b, of "''/out/a.txt''"]
    by (simp add: demo_env_def demo_tool_def world0_def cp_argv_def)
qed

lemma probe_world:
  "snd ((case total_size of None \<Rightarrow> get_size_of_object e source | Some t \<Rightarrow> ret t) w) =
     (case total_size of
        None \<Rightarrow> w\<lparr>files := snd (tool e [''gsutil'', ''-q'', ''du'', ''-s'', source] (files w)),
                  trace := trace w @ [Run [''gsutil'', ''-q'', ''du'', ''-s'', source]]\<rparr>
      | Some t \<Rightarrow> w)"
  by (cases total_size) (simp_all add: get_size_of_object_world ret_def)

lemma dwp_stop_after_copy:
  assumes "EventSet \<in> set (new_events w (snd (download_with_progress e source destination total_size w)))"
  shows "\<exists>pre b. new_events w (snd (download_with_progress e source destination total_size w)) =
            pre @ [Run (cp_argv (max_threads w) source destination), EventSet, ThreadJoin 1000, TqdmClose b] \<and>
          EventSet \<notin> set pre"
proof -
  let ?probe = "(case total_size of None \<Rightarrow> get_size_of_object e source | Some t \<Rightarrow> ret t) w"
  obtain r w1 where pr: "?probe = (r, w1)" by (cases ?probe)
  have w1: "w1 = (case total_size of
        None \<Rightarrow> w\<lparr>files := snd (tool e [''gsutil'', ''-q'', ''du'', ''-s'', source] (files w)),
                  trace := trace w @ [Run [''gsutil'', ''-q'', ''du'', ''-s'', source]]\<rparr>
      | Some t \<Rightarrow> w)"
    using probe_world [where total_size = total_size and e = e and source = source and w = w] pr by simp
  show ?thesis
  proof (cases r)
    case (Inl err)
    then have "download_with_progress e source destination total_size w = (Inl err, w1)"
      using pr by (simp add: dwp_probe_raises)
    with assms w1 show ?thesis
      by (simp add: new_events_def split: option.splits)
  next
    case (Inr sz)
    then have p: "?probe = (Inr sz, w1)" using pr by simp
    obtain oc f2 where t: "tool e (cp_argv (max_threads w1) source destination) (files w1) = (oc, f2)"
      by (cases "tool e (cp_argv (max_threads w1) source destination) (files w1)")
    show ?thesis
    proof (cases oc)
      case NoExecutable
      with assms w1 t dwp_after_probe [OF p, of destination] show ?thesis
        by (simp add: new_events_def Let_def split: option.splits)
    next
      case (Exited c)
      with w1 t dwp_after_probe [OF p, of destination] show ?thesis
        by (auto simp add: new_events_def Let_def split: option.splits)
    qed
  qed
qed


text \<open>
  C5: in every run of \<^verbatim>\<open>download_with_progress\<close> the stop signal of the monitor is set only
  right after the copy subprocess has come back, never before: the events the call adds
  end with the copy, the signal, the join with its timeout of one second (1000 ms) and the
  closing of the bar. Whenever the copy subprocess completes, with whatever status, the
  function goes through signal and join (which yields nothing to wait on further) and
  returns exactly the copy's success: true iff the status is zero.
\<close>

theorem copy_completes_before_stop_signal:
  "(EventSet \<in> set (new_events w (snd (download_with_progress e source destination total_size w))) \<longrightarrow>
      (\<exists>pre b. new_events w (snd (download_with_progress e source destination total_size w)) =
           pre @ [Run (cp_argv (max_threads w) source destination), EventSet, ThreadJoin 1000, TqdmClose b] \<and>
         EventSet \<notin> set pre)) \<and>
   ((case total_size of None \<Rightarrow> get_size_of_object e source | Some t \<Rightarrow> ret t) w = (Inr sz, w1) \<and>
    tool e (cp_argv (max_threads w1) source destination) (files w1) = (Exited c, f2) \<longrightarrow>
      download_with_progress e source destination total_size w =
        (Inr (returncode c = 0),
         w1\<lparr>files := f2,
            trace := trace w1 @
              [TqdmOpen \<lparr>bar_desc = ''Downloading '' @ basename source, bar_total = sz, bar_n = 0\<rparr>,
               ThreadStart,
               Run (cp_argv (max_threads w1) source destination),
               EventSet,
               ThreadJoin 1000,
               TqdmClose (update_progress destination
                 \<lparr>bar_desc = ''Downloading '' @ basename source, bar_total = sz, bar_n = 0\<rparr>
                 (polls e destination))]\<rparr>))"
proof (intro conjI impI)
  assume "EventSet \<in> set (new_events w (snd (download_with_progress e source destination total_size w)))"
  then show "\<exists>pre b. new_events w (snd (download_with_progress e source destination total_size w)) =
           pre @ [Run (cp_argv (max_threads w) source destination), EventSet, ThreadJoin 1000, TqdmClose b] \<and>
         EventSet \<notin> set pre"
    by (rule dwp_stop_after_copy)
next
  assume a: "(case total_size of None \<Rightarrow> get_size_of_object e source | Some t \<Rightarrow> ret t) w = (Inr sz, w1) \<and>
    tool e (cp_argv (max_threads w1) source destination) (files w1) = (Exited c, f2)"
  then have p: "(case total_size of None \<Rightarrow> get_size_of_object e source | Some t \<Rightarrow> ret t) w = (Inr sz, w1)"
    by simp
  show "download_with_progress e source destination total_size w =
        (Inr (returncode c = 0),
         w1\<lparr>files := f2,
            trace := trace w1 @
              [TqdmOpen \<lparr>bar_desc = ''Downloading '' @ basename source, bar_total = sz, bar_n = 0\<rparr>,
               ThreadStart,
               Run (cp_argv (max_threads w1) source destination),
               EventSet,
               ThreadJoin 1000,
               TqdmClose (update_progress destination
                 \<lparr>bar_desc = ''Downloading '' @ basename source, bar_total = sz, bar_n = 0\<rparr>
                 (polls e destination))]\<rparr>)"
    using a dwp_after_probe [OF p, of destination] by (simp add: Let_def)
qed

lemmas eval_strings =
  strip_def lstrip_def rstrip_def is_space_def py_int_def is_digit_def digits_val_def digit_val_def
  str_int_def digit_char_def basename_def rstrip_chars_def path_join_def startswith_def

lemmas eval_demo = demo_env_def demo_tool_def world0_def cp_argv_def eval_strings

theorem copy_completes_before_stop_signal_witness:
  "fst (download_with_progress (demo_env [''gs://b/a.txt''] []) ''gs://b/a.txt'' ''/out/a.txt'' (Some 4) (world0 []))
     = Inr False \<and>
   fst (download_with_progress (demo_env [] []) ''gs://b/a.txt'' ''/out/a.txt'' (Some 4) (world0 []))
     = Inr True \<and>
   new_events (world0 [])
     (snd (download_with_progress (demo_env [''gs://b/a.txt''] []) ''gs://b/a.txt'' ''/out/a.txt'' (Some 4) (world0 []))) =
     [TqdmOpen \<lparr>bar_desc = ''Downloading a.txt'', bar_total = 4, bar_n = 0\<rparr>,
      ThreadStart,
      Run (cp_argv 8 ''gs://b/a.txt'' ''/out/a.txt''),
      EventSet,
      ThreadJoin 1000,
      TqdmClose \<lparr>bar_desc = ''Downloading a.txt'', bar_total = 4, bar_n = 0\<rparr>]"
proof -
  have p: "(case Some 4 of None \<Rightarrow> get_size_of_object (demo_env [''gs://b/a.txt''] []) ''gs://b/a.txt''
            | Some t \<Rightarrow> ret t) (world0 []) = (Inr 4, world0 [])"
    by (simp add: ret_def)
  have t: "tool (demo_env [''gs://b/a.txt''] []) (cp_argv (max_threads (world0 [])) ''gs://b/a.txt'' ''/out/a.txt'')
             (files (world0 [])) = (Exited \<lparr>returncode = 1, stdout = []\<rparr>, files (world0 []))"
    by (simp add: eval_demo)
  have p': "(case Some 4 of None \<Rightarrow> get_size_of_object (demo_env [] []) ''gs://b/a.txt''
            | Some t \<Rightarrow> ret t) (world0 []) = (Inr 4, world0 [])"
    by (simp add: ret_def)
  have t': "tool (demo_env [] []) (cp_argv (max_threads (world0 [])) ''gs://b/a.txt'' ''/out/a.txt'')
             (files (world0 [])) = (Exited \<lparr>returncode = 0, stdout = []\<rparr>,
               files (world0 []) @ [(''/out/a.txt'', File ''data'')])"
    by (simp add: eval_demo eval_size)
  have m: "max_threads (world0 []) = 8" "trace (world0 []) = []"
    by (simp_all add: world0_def)
  have u: "update_progress ''/out/a.txt'' \<lparr>bar_desc = ''Downloading a.txt'', bar_total = 4, bar_n = 0\<rparr>
       (polls (demo_env [''gs://b/a.txt''] []) ''/out/a.txt'') =
       \<lparr>bar_desc = ''Downloading a.txt'', bar_total = 4, bar_n = 0\<rparr>"
    by (simp add: demo_env_def growing_polls_def eval_monitor)
  have b: "basename ''gs://b/a.txt'' = ''a.txt''"
    by (simp add: basename_def)
  have 1: "download_with_progress (demo_env [''gs://b/a.txt''] []) ''gs://b/a.txt'' ''/out/a.txt'' (Some 4) (world0 [])
     = (Inr False, world0 []\<lparr>files := files (world0 []), trace := [TqdmOpen \<lparr>bar_desc = ''Downloading a.txt'', bar_total = 4, bar_n = 0\<rparr>,
      ThreadStart,
      Run (cp_argv 8 ''gs://b/a.txt'' ''/out/a.txt''),
      EventSet,
      ThreadJoin 1000,
      TqdmClose \<lparr>bar_desc = ''Downloading a.txt'', bar_total = 4, bar_n = 0\<rparr>]\<rparr>)"
    using copy_completes_before_stop_signal
      [of "world0 []" "demo_env [''gs://b/a.txt''] []" "''gs://b/a.txt''" "''/out/a.txt''" "Some 4"
          4 "world0 []" "\<lparr>returncode = 1, stdout = []\<rparr>" "files (world0 [])"]
      p t by (simp add: m u b)
  have 2: "fst (download_with_progress (demo_env [] []) ''gs://b/a.txt'' ''/out/a.txt'' (Some 4) (world0 []))
     = Inr True"
    using copy_completes_before_stop_signal
      [of "world0 []" "demo_env [] []" "''gs://b/a.txt''" "''/out/a.txt''" "Some 4"
          4 "world0 []" "\<lparr>returncode = 0, stdout = []\<rparr>" "files (world0 []) @ [(''/out/a.txt'', File ''data'')]"]
      p' t' by simp
  show ?thesis
    using 1 2 by (simp add: new_events_def m)
qed

subsection \<open>The command line of the copy\<close>

lemma gsutil_command_cp: "gsutil_command (tl (cp_argv t s d)) = Some ''cp''"
  by (simp add: cp_argv_def)

lemma cp_argv_flags:
  "drop 10 (cp_argv t s d) = [''cp'', ''-r'', ''-n'', s, d]" "''-n'' \<in> set (cp_argv t s d)"
  "''-r'' \<in> set (cp_argv t s d)"
  by (simp_all add: cp_argv_def)

lemma dwp_runs:
  assumes "Run argv \<in> set (new_events w (snd (download_with_progress e source destination total_size w)))"
  shows "argv = [''gsutil'', ''-q'', ''du'', ''-s'', source] \<or>
         argv = cp_argv (max_threads w) source destination"
proof -
  let ?probe = "(case total_size of None \<Rightarrow> get_size_of_object e source | Some t \<Rightarrow> ret t) w"
  obtain r w1 where pr: "?probe = (r, w1)" by (cases ?probe)
  have w1: "w1 = (case total_size of
        None \<Rightarrow> w\<lparr>files := snd (tool e [''gsutil'', ''-q'', ''du'', ''-s'', source] (files w)),
                  trace := trace w @ [Run [''gsutil'', ''-q'', ''du'', ''-s'', source]]\<rparr>
      | Some t \<Rightarrow> w)"
    using probe_world [where total_size = total_size and e = e and source = source and w = w] pr by simp
  show ?thesis
  proof (cases r)
    case (Inl err)
    then have "download_with_progress e source destination total_size w = (Inl err, w1)"
      using pr by (simp add: dwp_probe_raises)
    with assms w1 show ?thesis
      by (simp add: new_events_def split: option.splits)
  next
    case (Inr sz)
    then have p: "?probe = (Inr sz, w1)" using pr by simp
    obtain oc f2 where t: "tool e (cp_argv (max_threads w1) source destination) (files w1) = (oc, f2)"
      by (cases "tool e (cp_argv (max_threads w1) source destination) (files w1)")
    show ?thesis
      using assms w1 t dwp_after_probe [OF p, of destination]
      by (cases oc) (auto simp add: new_events_def Let_def split: option.splits)
  qed
qed

lemma dwp_files:
  "files (snd (download_with_progress e source destination total_size w)) =
     (let f1 = (case total_size of
                  None \<Rightarrow> snd (tool e [''gsutil'', ''-q'', ''du'', ''-s'', source] (files w))
                | Some t \<Rightarrow> files w) in
      case fst ((case total_size of None \<Rightarrow> get_size_of_object e source | Some t \<Rightarrow> ret t) w) of
        Inl err \<Rightarrow> f1
      | Inr sz \<Rightarrow> snd (tool e (cp_argv (max_threads w) source destination) f1))"
proof -
  let ?probe = "(case total_size of None \<Rightarrow> get_size_of_object e source | Some t \<Rightarrow> ret t) w"
  obtain r w1 where pr: "?probe = (r, w1)" by (cases ?probe)
  have w1: "w1 = (case total_size of
        None \<Rightarrow> w\<lparr>files := snd (tool e [''gsutil'', ''-q'', ''du'', ''-s'', source] (files w)),
                  trace := trace w @ [Run [''gsutil'', ''-q'', ''du'', ''-s'', source]]\<rparr>
      | Some t \<Rightarrow> w)"
    using probe_world [where total_size = total_size and e = e and source = source and w = w] pr by simp
  show ?thesis
  proof (cases r)
    case (Inl err)
    then have "download_with_progress e source destination total_size w = (Inl err, w1)"
      using pr by (simp add: dwp_probe_raises)
    with w1 pr Inl show ?thesis
      by (simp add: Let_def split: option.splits)
  next
    case (Inr sz)
    then have p: "?probe = (Inr sz, w1)" using pr by simp
    obtain oc f2 where t: "tool e (cp_argv (max_threads w1) source destination) (files w1) = (oc, f2)"
      by (cases "tool e (cp_argv (max_threads w1) source destination) (files w1)")
    show ?thesis
      using w1 t pr Inr dwp_after_probe [OF p, of destination]
      by (cases oc) (auto simp add: Let_def split: option.splits)
  qed
qed

text \<open>
  C10: the only processes \<^verbatim>\<open>download_with_progress\<close> runs are the size probe and the copy,
  and the copy's command line is always \<^verbatim>\<open>cp -r -n source destination\<close> after the global
  options: recursive and skip-existing, for every source and destination. Consequently,
  with a tool that honours no-clobber (it leaves an existing local file as it is unless it
  is asked for a \<^verbatim>\<open>cp\<close> without \<^verbatim>\<open>-n\<close>), every file present before the download is
  still there with the same content after it; the program itself writes no file.
\<close>

theorem copy_is_recursive_and_skips_existing:
  "(\<forall>argv. Run argv \<in> set (new_events w (snd (download_with_progress e source destination total_size w))) \<longrightarrow>
      argv = [''gsutil'', ''-q'', ''du'', ''-s'', source] \<or>
      (argv = cp_argv (max_threads w) source destination \<and>
       gsutil_command (tl argv) = Some ''cp'' \<and>
       drop 10 argv = [''cp'', ''-r'', ''-n'', source, destination])) \<and>
   ((\<forall>argv f p c. lookup f p = Some (File c) \<longrightarrow>
        (gsutil_command (tl argv) \<noteq> Some ''cp'' \<or> ''-n'' \<in> set argv) \<longrightarrow>
        lookup (snd (tool e argv f)) p = Some (File c)) \<longrightarrow>
    (\<forall>p c. lookup (files w) p = Some (File c) \<longrightarrow>
       lookup (files (snd (download_with_progress e source destination total_size w))) p = Some (File c)))"
proof (intro conjI allI impI)
  fix argv
  assume "Run argv \<in> set (new_events w (snd (download_with_progress e source destination total_size w)))"
  then have "argv = [''gsutil'', ''-q'', ''du'', ''-s'', source] \<or>
         argv = cp_argv (max_threads w) source destination"
    by (rule dwp_runs)
  then show "argv = [''gsutil'', ''-q'', ''du'', ''-s'', source] \<or>
      (argv = cp_argv (max_threads w) source destination \<and>
       gsutil_command (tl argv) = Some ''cp'' \<and>
       drop 10 argv = [''cp'', ''-r'', ''-n'', source, destination])"
    using gsutil_command_cp cp_argv_flags(1) by auto
next
  fix p c
  assume H: "\<forall>argv f p c. lookup f p = Some (File c) \<longrightarrow>
        (gsutil_command (tl argv) \<noteq> Some ''cp'' \<or> ''-n'' \<in> set argv) \<longrightarrow>
        lookup (snd (tool e argv f)) p = Some (File c)"
    and f: "lookup (files w) p = Some (File c)"
  let ?f1 = "(case total_size of
                  None \<Rightarrow> snd (tool e [''gsutil'', ''-q'', ''du'', ''-s'', source] (files w))
                | Some t \<Rightarrow> files w)"
  have "lookup (snd (tool e [''gsutil'', ''-q'', ''du'', ''-s'', source] (files w))) p = Some (File c)"
    using H f by simp
  then have f1: "lookup ?f1 p = Some (File c)"
    using f by (simp split: option.splits)
  have "lookup (snd (tool e (cp_argv (max_threads w) source destination) ?f1)) p = Some (File c)"
    using H f1 cp_argv_flags(2) by blast
  then show "lookup (files (snd (download_with_progress e source destination total_size w))) p = Some (File c)"
    using f1 by (simp add: dwp_files Let_def split: sum.splits)
qed

lemma demo_tool_keeps_files:
  "lookup f p = Some (File c) \<Longrightarrow> lookup (snd (demo_tool inst failing argv f)) p = Some (File c)"
  by (simp add: demo_tool_def lookup_def Let_def split: option.splits)

theorem copy_is_recursive_and_skips_existing_witness:
  "lookup (files (world0 [])) ''/out/old.txt'' = Some (File ''old'') \<and>
   lookup (files (snd (download_with_progress (demo_env [] []) ''gs://b/old.txt'' ''/out/old.txt'' None (world0 []))))
      ''/out/old.txt'' = Some (File ''old'') \<and>
   Run (cp_argv 8 ''gs://b/old.txt'' ''/out/old.txt'')
     \<in> set (new_events (world0 [])
          (snd (download_with_progress (demo_env [] []) ''gs://b/old.txt'' ''/out/old.txt'' None (world0 [])))) \<and>
   drop 10 (cp_argv 8 ''gs://b/old.txt'' ''/out/old.txt'') =
     [''cp'', ''-r'', ''-n'', ''gs://b/old.txt'', ''/out/old.txt'']"
proof -
  have H: "\<forall>argv f p c. lookup f p = Some (File c) \<longrightarrow>
        (gsutil_command (tl argv) \<noteq> Some ''cp'' \<or> ''-n'' \<in> set argv) \<longrightarrow>
        lookup (snd (tool (demo_env [] []) argv f)) p = Some (File c)"
    by (simp add: demo_env_def demo_tool_keeps_files)
  have f: "lookup (files (world0 [])) ''/out/old.txt'' = Some (File ''old'')"
    by (simp add: world0_def lookup_def norm_path_def rstrip_chars_def)
  have r: "Run (cp_argv 8 ''gs://b/old.txt'' ''/out/old.txt'')
     \<in> set (new_events (world0 [])
          (snd (download_with_progress (demo_env [] []) ''gs://b/old.txt'' ''/out/old.txt'' None (world0 []))))"
    by (simp add: new_events_def download_with_progress_def get_size_of_object_def subprocess_run_def
        monad_defs is_called_process_error_def eval_demo eval_size Let_def)
  show ?thesis
    using H f r copy_is_recursive_and_skips_existing
      [of "world0 []" "demo_env [] []" "''gs://b/old.txt''" "''/out/old.txt''" None]
    by (simp add: cp_argv_def)
qed

subsection \<open>The batch orchestrator\<close>






lemma download_item_fst:
  "download_item e destination is_folders item w = (Inr r, w') \<Longrightarrow> fst r = item"
  by (auto simp add: download_item_def monad_defs Let_def split: if_splits prod.splits sum.splits)

lemma executor_map_order:
  "executor_map (download_item e destination is_folders) items w = (Inr rs, w') \<Longrightarrow> map fst rs = items"
proof (induction items arbitrary: w rs)
  case Nil
  then show ?case by (simp add: ret_def)
next
  case (Cons item items)
  from Cons.prems obtain r w1 rs' where
    d: "download_item e destination is_folders item w = (Inr r, w1)" and
    m: "executor_map (download_item e destination is_folders) items w1 = (Inr rs', w')" and
    rs: "rs = r # rs'"
    by (auto simp add: monad_defs split: prod.splits sum.splits)
  show ?case
    using download_item_fst [OF d] Cons.IH [OF m] rs by simp
qed

lemma batch_results_order:
  "batch_results e items destination is_folders max_workers w = (Inr results, w') \<Longrightarrow>
   map fst results = items"
  by (auto simp add: batch_results_def monad_defs Let_def executor_map_order
      split: if_splits prod.splits sum.splits)

lemma subseq_map_filter: "subseq (map f (filter P xs)) (map f xs)"
  by (simp add: subseq_map)


lemma batch_download_explicit:
  assumes "batch_results e items destination is_folders max_workers w = (Inr results, w')"
  shows "batch_download e items destination is_folders max_workers w =
     (Inr (), w'\<lparr>trace := trace w' @
        (if successful_of results \<noteq> []
         then [Print (''Successfully downloaded '' @ str_int (int (length (successful_of results))) @ '' items'')]
         else []) @
        (if failed_of results \<noteq> []
         then Print (''Failed to download '' @ str_int (int (length (failed_of results))) @ '' items:'')
              # map (\<lambda>item. Print (''  - '' @ item)) (failed_of results)
         else [])\<rparr>)"
  using assms by (simp add: batch_download_def monad_defs Let_def)



lemmas eval_run =
  batch_results_def batch_download_def download_item_def download_with_progress_def
  get_size_of_object_def subprocess_run_def os_makedirs_def successful_of_def failed_of_def
  monad_defs is_called_process_error_def eval_demo eval_size Let_def

lemma demo_batch:
  "fst (batch_results (demo_env [''gs://b/a.txt''] []) [''gs://b/a.txt'', ''gs://b/b.txt''] ''/out'' False (Some 1) (world0 []))
     = Inr [(''gs://b/a.txt'', False), (''gs://b/b.txt'', True)]"
  by (simp add: eval_run)

text \<open>
  C9: \<^verbatim>\<open>batch_download\<close> collects its results in submission order. Whenever the list of
  results is collected, its i-th element is the result of the i-th submitted item, so the
  lists of successful and of failed items are subsequences of the submitted list (each
  keeps the relative submission order), and the failed items are printed in that order.
\<close>

theorem results_in_submission_order:
  "batch_results e items destination is_folders max_workers w = (Inr results, w') \<longrightarrow>
     map fst results = items \<and>
     (\<forall>i < length items. fst (results ! i) = items ! i) \<and>
     subseq (successful_of results) items \<and>
     subseq (failed_of results) items \<and>
     batch_download e items destination is_folders max_workers w =
       (Inr (), w'\<lparr>trace := trace w' @
          (if successful_of results \<noteq> []
           then [Print (''Successfully downloaded '' @ str_int (int (length (successful_of results))) @ '' items'')]
           else []) @
          (if failed_of results \<noteq> []
           then Print (''Failed to download '' @ str_int (int (length (failed_of results))) @ '' items:'')
                # map (\<lambda>item. Print (''  - '' @ item)) (failed_of results)
           else [])\<rparr>)"
proof
  assume a: "batch_results e items destination is_folders max_workers w = (Inr results, w')"
  have m: "map fst results = items"
    using a by (rule batch_results_order)
  have n: "\<forall>i < length items. fst (results ! i) = items ! i"
    using m by (metis length_map nth_map)
  have s: "subseq (successful_of results) items" "subseq (failed_of results) items"
    using subseq_map_filter [of fst _ results] m by (simp_all add: successful_of_def failed_of_def)
  show "map fst results = items \<and>
     (\<forall>i < length items. fst (results ! i) = items ! i) \<and>
     subseq (successful_of results) items \<and>
     subseq (failed_of results) items \<and>
     batch_download e items destination is_folders max_workers w =
       (Inr (), w'\<lparr>trace := trace w' @
          (if successful_of results \<noteq> []
           then [Print (''Successfully downloaded '' @ str_int (int (length (successful_of results))) @ '' items'')]
           else []) @
          (if failed_of results \<noteq> []
           then Print (''Failed to download '' @ str_int (int (length (failed_of results))) @ '' items:'')
                # map (\<lambda>item. Print (''  - '' @ item)) (failed_of results)
           else [])\<rparr>)"
    using m n s batch_download_explicit [OF a] by simp
qed

theorem results_in_submission_order_witness:
  "fst (batch_results (demo_env [''gs://b/a.txt''] []) [''gs://b/a.txt'', ''gs://b/b.txt''] ''/out'' False
          (Some 1) (world0 []))
     = Inr [(''gs://b/a.txt'', False), (''gs://b/b.txt'', True)] \<and>
   map fst [(''gs://b/a.txt'', False), (''gs://b/b.txt'', True)] = [''gs://b/a.txt'', ''gs://b/b.txt''] \<and>
   successful_of [(''gs://b/a.txt'', False), (''gs://b/b.txt'', True)] = [''gs://b/b.txt''] \<and>
   failed_of [(''gs://b/a.txt'', False), (''gs://b/b.txt'', True)] = [''gs://b/a.txt''] \<and>
   subseq [''gs://b/b.txt''] [''gs://b/a.txt'', ''gs://b/b.txt''] \<and>
   subseq [''gs://b/a.txt''] [''gs://b/a.txt'', ''gs://b/b.txt'']"
proof -
  let ?run = "batch_results (demo_env [''gs://b/a.txt''] []) [''gs://b/a.txt'', ''gs://b/b.txt''] ''/out'' False
          (Some 1) (world0 [])"
  have a: "?run = (Inr [(''gs://b/a.txt'', False), (''gs://b/b.txt'', True)], snd ?run)"
    using demo_batch by (metis prod.collapse)
  have s: "successful_of [(''gs://b/a.txt'', False), (''gs://b/b.txt'', True)] = [''gs://b/b.txt'']"
     "failed_of [(''gs://b/a.txt'', False), (''gs://b/b.txt'', True)] = [''gs://b/a.txt'']"
    by (simp_all add: successful_of_def failed_of_def)
  note r = results_in_submission_order
      [of "demo_env [''gs://b/a.txt''] []" "[''gs://b/a.txt'', ''gs://b/b.txt'']" "''/out''" False
          "Some 1" "world0 []" "[(''gs://b/a.txt'', False), (''gs://b/b.txt'', True)]" "snd ?run",
       THEN mp, OF a]
  show ?thesis
    using s demo_batch r by simp
qed



subsection \<open>Folder mode\<close>

lemma lookup_after_makedirs:
  "lookup ((norm_path p, Dir) # f) p = Some Dir"
  by (simp add: lookup_def)

lemma makedirs_if_absent_present:
  "path_exists (files w) p \<Longrightarrow> makedirs_if_absent e p w = (Inr (), w)"
  by (simp add: makedirs_if_absent_def)

lemma makedirs_if_absent_creates:
  assumes "\<not> path_exists (files w) p" "\<not> mkdir_denied e p"
  shows "makedirs_if_absent e p w =
     (Inr (), w\<lparr>files := map (\<lambda>a. (a, Dir))
                   (norm_path p # filter (\<lambda>a. \<not> path_exists (files w) a) (ancestors (norm_path p))) @ files w,
               trace := trace w @ [Makedirs p]\<rparr>)"
  using assms by (simp add: makedirs_if_absent_def os_makedirs_def Let_def)

lemma makedirs_if_absent_refused:
  assumes "\<not> path_exists (files w) p" "mkdir_denied e p"
  shows "makedirs_if_absent e p w = (Inl OSError, w)"
  using assms by (simp add: makedirs_if_absent_def os_makedirs_def Let_def)

lemma makedirs_if_absent_post:
  assumes "fst (makedirs_if_absent e p w) = Inr ()"
  shows "path_exists (files (snd (makedirs_if_absent e p w))) p"
proof (cases "path_exists (files w) p")
  case True
  then show ?thesis by (simp add: makedirs_if_absent_present)
next
  case False
  show ?thesis
  proof (cases "mkdir_denied e p")
    case True
    with False assms show ?thesis by (simp add: makedirs_if_absent_refused)
  next
    case nd: False
    show ?thesis
      using makedirs_if_absent_creates [OF False nd]
      by (simp add: path_exists_def lookup_after_makedirs)
  qed
qed

lemma download_item_folder:
  "download_item e destination True item =
     bnd (makedirs_if_absent e (item_dest destination True item)) (\<lambda>_.
     bnd (download_with_progress e item (item_dest destination True item) None) (\<lambda>success.
     ret (item, success)))"
  by (rule ext) (simp add: download_item_def makedirs_if_absent_def item_dest_def monad_defs Let_def)

lemma interactive_choice_folder:
  assumes "stdin w = typed # rest" "py_int typed = Some k" "0 \<le> k - 1" "k - 1 < int (length items)"
  shows "interactive_choice e bucket items destination ''3'' w =
     bnd (makedirs_if_absent e (item_dest destination True (items ! nat (k - 1)))) (\<lambda>_.
     bnd (download_with_progress e (items ! nat (k - 1))
            (item_dest destination True (items ! nat (k - 1))) None) (\<lambda>_.
     ret ()))
     (w\<lparr>stdin := rest, trace := trace w @ [Prompt ''Enter the number of the folder to download: '']\<rparr>)"
  using assms
  by (simp add: interactive_choice_def py_input_def makedirs_if_absent_def item_dest_def monad_defs Let_def)


lemmas eval_front =
  interactive_choice_def py_input_def parse_indices_def select_items_def makedirs_if_absent_def
  new_events_def item_dest_def

text \<open>
  C7: in folder mode, both in \<^verbatim>\<open>download_item\<close> for a batch of folders and on the
  interactive single-folder path, the copy goes to the subdirectory of the destination
  named after the basename of the source without its trailing separators, and creating
  that subdirectory when it is absent is the step right before the download: the download
  starts in the world the creation left, in which the directory exists. The creation is
  idempotent: on a directory that is already there it changes nothing and records
  nothing, so running it again after it succeeded is a no-op. When the system refuses the
  creation, \<^verbatim>\<open>OSError\<close> is raised and no copy is dispatched.
\<close>

theorem folder_created_before_copy:
  "download_item e destination True item =
     bnd (makedirs_if_absent e (item_dest destination True item)) (\<lambda>_.
     bnd (download_with_progress e item (item_dest destination True item) None) (\<lambda>success.
     ret (item, success))) \<and>
   (stdin w = typed # rest \<and> py_int typed = Some k \<and> 0 \<le> k - 1 \<and> k - 1 < int (length items) \<longrightarrow>
      interactive_choice e bucket items destination ''3'' w =
        bnd (makedirs_if_absent e (item_dest destination True (items ! nat (k - 1)))) (\<lambda>_.
        bnd (download_with_progress e (items ! nat (k - 1))
               (item_dest destination True (items ! nat (k - 1))) None) (\<lambda>_.
        ret ()))
        (w\<lparr>stdin := rest, trace := trace w @ [Prompt ''Enter the number of the folder to download: '']\<rparr>)) \<and>
   item_dest destination True item = path_join destination (basename (rstrip_chars (CHR ''/'') item)) \<and>
   (path_exists (files w) p \<longrightarrow> makedirs_if_absent e p w = (Inr (), w)) \<and>
   (\<not> path_exists (files w) p \<and> \<not> mkdir_denied e p \<longrightarrow>
      fst (makedirs_if_absent e p w) = Inr () \<and>
      new_events w (snd (makedirs_if_absent e p w)) = [Makedirs p] \<and>
      path_isdir (files (snd (makedirs_if_absent e p w))) p) \<and>
   (\<not> path_exists (files w) p \<and> mkdir_denied e p \<longrightarrow> makedirs_if_absent e p w = (Inl OSError, w)) \<and>
   (fst (makedirs_if_absent e p w) = Inr () \<longrightarrow>
      path_exists (files (snd (makedirs_if_absent e p w))) p \<and>
      makedirs_if_absent e p (snd (makedirs_if_absent e p w)) = (Inr (), snd (makedirs_if_absent e p w)))"
proof (intro conjI impI)
  show "download_item e destination True item =
     bnd (makedirs_if_absent e (item_dest destination True item)) (\<lambda>_.
     bnd (download_with_progress e item (item_dest destination True item) None) (\<lambda>success.
     ret (item, success)))"
    by (rule download_item_folder)
next
  assume "stdin w = typed # rest \<and> py_int typed = Some k \<and> 0 \<le> k - 1 \<and> k - 1 < int (length items)"
  then show "interactive_choice e bucket items destination ''3'' w =
        bnd (makedirs_if_absent e (item_dest destination True (items ! nat (k - 1)))) (\<lambda>_.
        bnd (download_with_progress e (items ! nat (k - 1))
               (item_dest destination True (items ! nat (k - 1))) None) (\<lambda>_.
        ret ()))
        (w\<lparr>stdin := rest, trace := trace w @ [Prompt ''Enter the number of the folder to download: '']\<rparr>)"
    by (simp add: interactive_choice_folder)
next
  show "item_dest destination True item = path_join destination (basename (rstrip_chars (CHR ''/'') item))"
    by (simp add: item_dest_def)
next
  assume "path_exists (files w) p"
  then show "makedirs_if_absent e p w = (Inr (), w)"
    by (rule makedirs_if_absent_present)
next
  assume a: "\<not> path_exists (files w) p \<and> \<not> mkdir_denied e p"
  then have c: "makedirs_if_absent e p w =
     (Inr (), w\<lparr>files := map (\<lambda>a. (a, Dir))
                   (norm_path p # filter (\<lambda>a. \<not> path_exists (files w) a) (ancestors (norm_path p))) @ files w,
               trace := trace w @ [Makedirs p]\<rparr>)"
    by (simp add: makedirs_if_absent_creates)
  show "fst (makedirs_if_absent e p w) = Inr ()"
    using c by simp
  show "new_events w (snd (makedirs_if_absent e p w)) = [Makedirs p]"
    using c by (simp add: new_events_def)
  show "path_isdir (files (snd (makedirs_if_absent e p w))) p"
    using c by (simp add: path_isdir_def lookup_after_makedirs)
next
  assume "\<not> path_exists (files w) p \<and> mkdir_denied e p"
  then show "makedirs_if_absent e p w = (Inl OSError, w)"
    by (simp add: makedirs_if_absent_refused)
next
  assume a: "fst (makedirs_if_absent e p w) = Inr ()"
  then show ex: "path_exists (files (snd (makedirs_if_absent e p w))) p"
    by (rule makedirs_if_absent_post)
  show "makedirs_if_absent e p (snd (makedirs_if_absent e p w)) = (Inr (), snd (makedirs_if_absent e p w))"
    using ex by (rule makedirs_if_absent_present)
qed

theorem folder_created_before_copy_witness:
  "\<not> path_exists (files (world0 [])) ''/out/dir'' \<and>
   item_dest ''/out'' True ''gs://b/dir/'' = ''/out/dir'' \<and>
   take 2 (new_events (world0 [])
      (snd (download_item (demo_env [] []) ''/out'' True ''gs://b/dir/'' (world0 [])))) =
     [Makedirs ''/out/dir'', Run [''gsutil'', ''-q'', ''du'', ''-s'', ''gs://b/dir/'']] \<and>
   path_isdir (files (snd (makedirs_if_absent (demo_env [] []) ''/out/dir'' (world0 [])))) ''/out/dir'' \<and>
   makedirs_if_absent (demo_env [] []) ''/out''  (world0 []) = (Inr (), world0 []) \<and>
   take 2 (new_events (world0 [''2''])
      (snd (interactive_choice (demo_env [] []) ''gs://b'' [''gs://b/a.txt'', ''gs://b/dir/''] ''/out'' ''3''
             (world0 [''2''])))) =
     [Prompt ''Enter the number of the folder to download: '', Makedirs ''/out/dir'']"
proof -
  have a: "\<not> path_exists (files (world0 [])) ''/out/dir''"
    by (simp add: world0_def eval_size)
  have a': "path_exists (files (world0 [])) ''/out''"
    by (simp add: world0_def eval_size)
  have c: "item_dest ''/out'' True ''gs://b/dir/'' = ''/out/dir''"
    by (simp add: item_dest_def eval_strings)
  have d: "take 2 (new_events (world0 [])
      (snd (download_item (demo_env [] []) ''/out'' True ''gs://b/dir/'' (world0 [])))) =
     [Makedirs ''/out/dir'', Run [''gsutil'', ''-q'', ''du'', ''-s'', ''gs://b/dir/'']]"
    by (simp add: eval_run eval_front)
  have i: "take 2 (new_events (world0 [''2''])
      (snd (interactive_choice (demo_env [] []) ''gs://b'' [''gs://b/a.txt'', ''gs://b/dir/''] ''/out'' ''3''
             (world0 [''2''])))) =
     [Prompt ''Enter the number of the folder to download: '', Makedirs ''/out/dir'']"
    by (simp add: eval_run eval_front)
  have m: "path_isdir (files (snd (makedirs_if_absent (demo_env [] []) ''/out/dir'' (world0 [])))) ''/out/dir''"
    by (simp add: eval_run eval_front)
  have e: "makedirs_if_absent (demo_env [] []) ''/out'' (world0 []) = (Inr (), world0 [])"
    using a' folder_created_before_copy
      [where e = "demo_env [] []" and p = "''/out''" and w = "world0 []",
       THEN conjunct2, THEN conjunct2, THEN conjunct2, THEN conjunct1]
    by (rule rev_mp)
  show ?thesis
    using a c d i m e by simp
qed

subsection \<open>Invalid selections in interactive mode\<close>

lemma select_items_empty:
  "select_items items idxs = [] \<longleftrightarrow> list_all (\<lambda>idx. \<not> (0 \<le> idx \<and> idx < int (length items))) idxs"
  by (auto simp add: select_items_def filter_empty_conv list_all_iff)

lemma those_map_None: "those (map f xs) = None \<longleftrightarrow> list_ex (\<lambda>x. f x = None) xs"
  by (induction xs) (auto split: option.splits)

lemma parse_indices_None:
  "parse_indices typed = None \<longleftrightarrow> list_ex (\<lambda>s. py_int (strip s) = None) (split_on (CHR '','') typed)"
  by (simp add: parse_indices_def those_map_None)

lemma single_out_of_range:
  assumes "choice = ''1'' \<or> choice = ''3''" "stdin w = typed # rest" "py_int typed = Some k"
    "\<not> (0 \<le> k - 1 \<and> k - 1 < int (length items))"
  shows "interactive_choice e bucket items destination choice w =
     (Inr (), w\<lparr>stdin := rest,
                trace := trace w @
                  (if choice = ''1''
                   then [Prompt ''Enter the number of the file to download: '', Print ''Invalid file selection.'']
                   else [Prompt ''Enter the number of the folder to download: '', Print ''Invalid folder selection.''])\<rparr>)"
  using assms by (auto simp add: interactive_choice_def py_input_def monad_defs Let_def)

lemma multi_non_numeric:
  assumes "choice = ''2'' \<or> choice = ''4''" "stdin w = typed # rest" "parse_indices typed = None"
  shows "interactive_choice e bucket items destination choice w =
     (Inr (), w\<lparr>stdin := rest,
                trace := trace w @
                  [Prompt (if choice = ''2''
                           then ''Enter the numbers of files to download (comma-separated): ''
                           else ''Enter the numbers of folders to download (comma-separated): ''),
                   Print ''Invalid input. Please enter comma-separated numbers.'']\<rparr>)"
  using assms by (auto simp add: interactive_choice_def py_input_def monad_defs Let_def)

lemma multi_none_valid:
  assumes "choice = ''2'' \<or> choice = ''4''" "stdin w = typed # rest" "parse_indices typed = Some idxs"
    "select_items items idxs = []"
  shows "interactive_choice e bucket items destination choice w =
     (Inr (), w\<lparr>stdin := rest,
                trace := trace w @
                  (if choice = ''2''
                   then [Prompt ''Enter the numbers of files to download (comma-separated): '',
                         Print ''No valid files selected.'']
                   else [Prompt ''Enter the numbers of folders to download (comma-separated): '',
                         Print ''No valid folders selected.''])\<rparr>)"
  using assms by (auto simp add: interactive_choice_def py_input_def monad_defs Let_def)

lemma multi_some_valid:
  assumes "choice = ''2'' \<or> choice = ''4''" "stdin w = typed # rest" "parse_indices typed = Some idxs"
    "select_items items idxs \<noteq> []"
  shows "interactive_choice e bucket items destination choice w =
     try_except (batch_download e (select_items items idxs) destination (choice = ''4'') None)
       (\<lambda>err. err = ValueError)
       (\<lambda>_. emit (Print ''Invalid input. Please enter comma-separated numbers.''))
       (w\<lparr>stdin := rest,
          trace := trace w @
            [Prompt (if choice = ''2''
                     then ''Enter the numbers of files to download (comma-separated): ''
                     else ''Enter the numbers of folders to download (comma-separated): '')]\<rparr>)"
  using assms by (auto simp add: interactive_choice_def py_input_def monad_defs Let_def)

lemma unknown_choice:
  assumes "choice \<notin> set [''1'', ''2'', ''3'', ''4'', ''5'']"
  shows "interactive_choice e bucket items destination choice w =
     (Inr (), w\<lparr>trace := trace w @
        [Print ''Invalid choice. Please run the program again and select a valid option.'']\<rparr>)"
  using assms by (simp add: interactive_choice_def monad_defs)


text \<open>
  C4, as the specification states it, fails. In the multi-file and multi-folder modes an
  out-of-range index is not an error: the guard \<^verbatim>\<open>if 0 <= idx < len(items)\<close> drops it
  without a word and the download of the valid entries goes ahead. With two listed items,
  the selection \<^verbatim>\<open>1,9\<close> downloads the first item and reports nothing about the 9.
\<close>

theorem out_of_range_index_dropped_silently:
  "parse_indices ''1,9'' = Some [0, 8] \<and>
   \<not> (8 < int (length [''gs://b/a.txt'', ''gs://b/dir/''])) \<and>
   interactive_choice (demo_env [] []) ''gs://b'' [''gs://b/a.txt'', ''gs://b/dir/''] ''/out'' ''2''
       (world0 [''1,9'']) =
     (Inr (),
      world0 []
       \<lparr>files := files (world0 []) @ [(''/out/a.txt'', File ''data'')],
        trace :=
          [Prompt ''Enter the numbers of files to download (comma-separated): '',
           Print ''Starting download of 1 files in parallel'',
           Run [''gsutil'', ''-q'', ''du'', ''-s'', ''gs://b/a.txt''],
           TqdmOpen \<lparr>bar_desc = ''Downloading a.txt'', bar_total = 4, bar_n = 0\<rparr>,
           ThreadStart,
           Run (cp_argv 8 ''gs://b/a.txt'' ''/out/a.txt''),
           EventSet,
           ThreadJoin 1000,
           TqdmClose \<lparr>bar_desc = ''Downloading a.txt'', bar_total = 4, bar_n = 0\<rparr>,
           Print ''Successfully downloaded 1 items'']\<rparr>)"
  by (simp add: eval_run eval_front eval_monitor growing_polls_def)

text \<open>
  In the single-file and single-folder modes \<^verbatim>\<open>int(input(...))\<close> stands outside any
  \<^verbatim>\<open>try\<close>: a non-numeric entry raises \<^verbatim>\<open>ValueError\<close> out of \<^verbatim>\<open>interactive_download\<close>,
  unlike in the multi modes, which catch it.
\<close>

lemma single_selection_non_numeric_uncaught:
  "py_int ''abc'' = None \<and>
   interactive_choice (demo_env [] []) ''gs://b'' [''gs://b/a.txt'', ''gs://b/dir/''] ''/out'' ''1''
       (world0 [''abc'']) =
     (Inl ValueError,
      world0 []\<lparr>trace := [Prompt ''Enter the number of the file to download: '']\<rparr>)"
  by (simp add: eval_run eval_front)

text \<open>
  C4 (amended): in interactive mode, an out-of-range index in single-file or single-folder
  mode, an entry that is not a number in multi-file or multi-folder mode, a multi-selection
  in which no index is in range, and a mode choice other than 1 to 5 are each reported
  with their message, and the operation then returns normally having run no process and
  changed nothing on the file system: the world differs only by the line read, the prompt
  and the message. In the multi modes, when at least one index is in range, the
  out-of-range ones are dropped and the batch download of the remaining items runs.
\<close>

theorem invalid_selection_reported:
  "((choice = ''1'' \<or> choice = ''3'') \<and> stdin w = typed # rest \<and> py_int typed = Some k \<and>
     \<not> (0 \<le> k - 1 \<and> k - 1 < int (length items)) \<longrightarrow>
      interactive_choice e bucket items destination choice w =
        (Inr (), w\<lparr>stdin := rest,
                   trace := trace w @
                     (if choice = ''1''
                      then [Prompt ''Enter the number of the file to download: '',
                            Print ''Invalid file selection.'']
                      else [Prompt ''Enter the number of the folder to download: '',
                            Print ''Invalid folder selection.''])\<rparr>)) \<and>
   ((choice = ''2'' \<or> choice = ''4'') \<and> stdin w = typed # rest \<and>
     list_ex (\<lambda>s. py_int (strip s) = None) (split_on (CHR '','') typed) \<longrightarrow>
      interactive_choice e bucket items destination choice w =
        (Inr (), w\<lparr>stdin := rest,
                   trace := trace w @
                     [Prompt (if choice = ''2''
                              then ''Enter the numbers of files to download (comma-separated): ''
                              else ''Enter the numbers of folders to download (comma-separated): ''),
                      Print ''Invalid input. Please enter comma-separated numbers.'']\<rparr>)) \<and>
   ((choice = ''2'' \<or> choice = ''4'') \<and> stdin w = typed # rest \<and> parse_indices typed = Some idxs \<and>
     list_all (\<lambda>idx. \<not> (0 \<le> idx \<and> idx < int (length items))) idxs \<longrightarrow>
      interactive_choice e bucket items destination choice w =
        (Inr (), w\<lparr>stdin := rest,
                   trace := trace w @
                     (if choice = ''2''
                      then [Prompt ''Enter the numbers of files to download (comma-separated): '',
                            Print ''No valid files selected.'']
                      else [Prompt ''Enter the numbers of folders to download (comma-separated): '',
                            Print ''No valid folders selected.''])\<rparr>)) \<and>
   ((choice = ''2'' \<or> choice = ''4'') \<and> stdin w = typed # rest \<and> parse_indices typed = Some idxs \<and>
     \<not> list_all (\<lambda>idx. \<not> (0 \<le> idx \<and> idx < int (length items))) idxs \<longrightarrow>
      interactive_choice e bucket items destination choice w =
        try_except
          (batch_download e
             (map (\<lambda>idx. items ! nat idx) (filter (\<lambda>idx. 0 \<le> idx \<and> idx < int (length items)) idxs))
             destination (choice = ''4'') None)
          (\<lambda>err. err = ValueError)
          (\<lambda>_. emit (Print ''Invalid input. Please enter comma-separated numbers.''))
          (w\<lparr>stdin := rest,
             trace := trace w @
               [Prompt (if choice = ''2''
                        then ''Enter the numbers of files to download (comma-separated): ''
                        else ''Enter the numbers of folders to download (comma-separated): '')]\<rparr>)) \<and>
   (choice \<notin> set [''1'', ''2'', ''3'', ''4'', ''5''] \<longrightarrow>
      interactive_choice e bucket items destination choice w =
        (Inr (), w\<lparr>trace := trace w @
           [Print ''Invalid choice. Please run the program again and select a valid option.'']\<rparr>))"
proof (intro conjI impI)
  assume "(choice = ''1'' \<or> choice = ''3'') \<and> stdin w = typed # rest \<and> py_int typed = Some k \<and>
     \<not> (0 \<le> k - 1 \<and> k - 1 < int (length items))"
  then show "interactive_choice e bucket items destination choice w =
        (Inr (), w\<lparr>stdin := rest,
                   trace := trace w @
                     (if choice = ''1''
                      then [Prompt ''Enter the number of the file to download: '',
                            Print ''Invalid file selection.'']
                      else [Prompt ''Enter the number of the folder to download: '',
                            Print ''Invalid folder selection.''])\<rparr>)"
    by (simp add: single_out_of_range)
next
  assume "(choice = ''2'' \<or> choice = ''4'') \<and> stdin w = typed # rest \<and>
     list_ex (\<lambda>s. py_int (strip s) = None) (split_on (CHR '','') typed)"
  then show "interactive_choice e bucket items destination choice w =
        (Inr (), w\<lparr>stdin := rest,
                   trace := trace w @
                     [Prompt (if choice = ''2''
                              then ''Enter the numbers of files to download (comma-separated): ''
                              else ''Enter the numbers of folders to download (comma-separated): ''),
                      Print ''Invalid input. Please enter comma-separated numbers.'']\<rparr>)"
    by (simp add: multi_non_numeric parse_indices_None)
next
  assume "(choice = ''2'' \<or> choice = ''4'') \<and> stdin w = typed # rest \<and> parse_indices typed = Some idxs \<and>
     list_all (\<lambda>idx. \<not> (0 \<le> idx \<and> idx < int (length items))) idxs"
  then show "interactive_choice e bucket items destination choice w =
        (Inr (), w\<lparr>stdin := rest,
                   trace := trace w @
                     (if choice = ''2''
                      then [Prompt ''Enter the numbers of files to download (comma-separated): '',
                            Print ''No valid files selected.'']
                      else [Prompt ''Enter the numbers of folders to download (comma-separated): '',
                            Print ''No valid folders selected.''])\<rparr>)"
    by (simp add: multi_none_valid select_items_empty)
next
  assume "(choice = ''2'' \<or> choice = ''4'') \<and> stdin w = typed # rest \<and> parse_indices typed = Some idxs \<and>
     \<not> list_all (\<lambda>idx. \<not> (0 \<le> idx \<and> idx < int (length items))) idxs"
  then show "interactive_choice e bucket items destination choice w =
        try_except
          (batch_download e
             (map (\<lambda>idx. items ! nat idx) (filter (\<lambda>idx. 0 \<le> idx \<and> idx < int (length items)) idxs))
             destination (choice = ''4'') None)
          (\<lambda>err. err = ValueError)
          (\<lambda>_. emit (Print ''Invalid input. Please enter comma-separated numbers.''))
          (w\<lparr>stdin := rest,
             trace := trace w @
               [Prompt (if choice = ''2''
                        then ''Enter the numbers of files to download (comma-separated): ''
                        else ''Enter the numbers of folders to download (comma-separated): '')]\<rparr>)"
    using multi_some_valid [of choice w typed rest idxs items e bucket destination]
      select_items_empty [of items idxs] by (simp add: select_items_def)
next
  assume "choice \<notin> set [''1'', ''2'', ''3'', ''4'', ''5'']"
  then show "interactive_choice e bucket items destination choice w =
        (Inr (), w\<lparr>trace := trace w @
           [Print ''Invalid choice. Please run the program again and select a valid option.'']\<rparr>)"
    by (rule unknown_choice)
qed

theorem invalid_selection_reported_witness:
  "interactive_choice (demo_env [] []) ''gs://b'' [''gs://b/a.txt'', ''gs://b/dir/''] ''/out'' ''1''
       (world0 [''7'']) =
     (Inr (), world0 []\<lparr>trace := [Prompt ''Enter the number of the file to download: '',
                                    Print ''Invalid file selection.'']\<rparr>) \<and>
   interactive_choice (demo_env [] []) ''gs://b'' [''gs://b/a.txt'', ''gs://b/dir/''] ''/out'' ''2''
       (world0 [''1,x'']) =
     (Inr (), world0 []\<lparr>trace := [Prompt ''Enter the numbers of files to download (comma-separated): '',
                                    Print ''Invalid input. Please enter comma-separated numbers.'']\<rparr>) \<and>
   interactive_choice (demo_env [] []) ''gs://b'' [''gs://b/a.txt'', ''gs://b/dir/''] ''/out'' ''4''
       (world0 [''0, 3'']) =
     (Inr (), world0 []\<lparr>trace := [Prompt ''Enter the numbers of folders to download (comma-separated): '',
                                    Print ''No valid folders selected.'']\<rparr>) \<and>
   interactive_choice (demo_env [] []) ''gs://b'' [''gs://b/a.txt'', ''gs://b/dir/''] ''/out'' ''6''
       (world0 []) =
     (Inr (), world0 []\<lparr>trace :=
        [Print ''Invalid choice. Please run the program again and select a valid option.'']\<rparr>)"
proof -
  note t = invalid_selection_reported
    [where e = "demo_env [] []" and bucket = "''gs://b''" and items = "[''gs://b/a.txt'', ''gs://b/dir/'']"
       and destination = "''/out''"]
  have 1: "interactive_choice (demo_env [] []) ''gs://b'' [''gs://b/a.txt'', ''gs://b/dir/''] ''/out'' ''1''
       (world0 [''7'']) =
     (Inr (), world0 []\<lparr>trace := [Prompt ''Enter the number of the file to download: '',
                                    Print ''Invalid file selection.'']\<rparr>)"
    using t [where choice = "''1''" and w = "world0 [''7'']" and typed = "''7''" and rest = "[]" and k = 7,
             THEN conjunct1]
    by (simp add: world0_def eval_strings)
  have 2: "interactive_choice (demo_env [] []) ''gs://b'' [''gs://b/a.txt'', ''gs://b/dir/''] ''/out'' ''2''
       (world0 [''1,x'']) =
     (Inr (), world0 []\<lparr>trace := [Prompt ''Enter the numbers of files to download (comma-separated): '',
                                    Print ''Invalid input. Please enter comma-separated numbers.'']\<rparr>)"
    using t [where choice = "''2''" and w = "world0 [''1,x'']" and typed = "''1,x''" and rest = "[]",
             THEN conjunct2, THEN conjunct1]
    by (simp add: world0_def eval_strings)
  have 3: "interactive_choice (demo_env [] []) ''gs://b'' [''gs://b/a.txt'', ''gs://b/dir/''] ''/out'' ''4''
       (world0 [''0, 3'']) =
     (Inr (), world0 []\<lparr>trace := [Prompt ''Enter the numbers of folders to download (comma-separated): '',
                                    Print ''No valid folders selected.'']\<rparr>)"
    using t [where choice = "''4''" and w = "world0 [''0, 3'']" and typed = "''0, 3''" and rest = "[]"
               and idxs = "[-1, 2]",
             THEN conjunct2, THEN conjunct2, THEN conjunct1]
    by (simp add: world0_def parse_indices_def eval_strings)
  have 4: "interactive_choice (demo_env [] []) ''gs://b'' [''gs://b/a.txt'', ''gs://b/dir/''] ''/out'' ''6''
       (world0 []) =
     (Inr (), world0 []\<lparr>trace :=
        [Print ''Invalid choice. Please run the program again and select a valid option.'']\<rparr>)"
    using t [where choice = "''6''" and w = "world0 []",
             THEN conjunct2, THEN conjunct2, THEN conjunct2, THEN conjunct2]
    by (simp add: world0_def)
  show ?thesis
    using 1 2 3 4 by simp
qed

subsection \<open>The exit code\<close>
















































end
